theory Spec2Isabelle
  imports Main
begin

section \<open>JavaScript values shared by every component\<close>

text \<open>
  A failure is a thrown JavaScript value. The sources throw \<^verbatim>\<open>new Error(msg)\<close> themselves;
  reading a member of \<^verbatim>\<open>undefined\<close>/\<^verbatim>\<open>null\<close> or calling a non-function raises a
  \<^verbatim>\<open>TypeError\<close>; everything the automation engine reports is a \<open>DriverError\<close>.
\<close>

datatype error = Error string | TypeError string | DriverError string

text \<open>What \<^verbatim>\<open>console.log\<close> received, oldest entry first.\<close>

datatype log_entry = LogMessage string | LogError error

text \<open>
  A property of an object literal is absent, present with the value \<^verbatim>\<open>undefined\<close>, or
  present with a value. Object spread \<^verbatim>\<open>{...a, ...b}\<close> copies every own property of
  \<open>b\<close> over \<open>a\<close>, also one whose value is \<^verbatim>\<open>undefined\<close>.
\<close>

datatype 'a field = Absent | Undefined | Value 'a

fun spreadField :: "'a field \<Rightarrow> 'a field \<Rightarrow> 'a field" where
  "spreadField a Absent = a"
| "spreadField a b = b"

text \<open>Reading \<^verbatim>\<open>obj.key\<close>: an absent property reads as \<^verbatim>\<open>undefined\<close>.\<close>

fun readField :: "'a field \<Rightarrow> 'a field" where
  "readField Absent = Undefined"
| "readField f = f"

text \<open>Truthiness of a boolean property in \<^verbatim>\<open>if (options.key)\<close>.\<close>

fun truthy :: "bool field \<Rightarrow> bool" where
  "truthy (Value b) = b"
| "truthy _ = False"

section \<open>Configuration: baseConfig.ts and getActionOptionsFromConfig\<close>

datatype engine = chromium | firefox | webkit

record baseConfig =
  browser :: "engine field"
  headless :: "bool field"
  actionTimeout :: "int field"
  logs :: "bool field"
  throwOnFail :: "bool field"

text \<open>
  The record \<^verbatim>\<open>actionOptions\<close> (its declaration file is not part of the sources; its three
  optional keys are the ones \<^verbatim>\<open>getActionOptionsFromConfig\<close> writes and \<^verbatim>\<open>safeRun\<close> reads).
  The key \<^verbatim>\<open>throwOnFail\<close> is written \<open>throwOnFail'\<close> here, the name being taken by
  \<open>baseConfig\<close>.
\<close>

record actionOptions =
  timeout :: "int field"
  log :: "bool field"
  throwOnFail' :: "bool field"

record safeRunOptions = actionOptions +
  message :: string

definition defaultConfig :: baseConfig where
  "defaultConfig =
     \<lparr>browser = Value chromium, headless = Value True, actionTimeout = Value 5000,
      logs = Value True, throwOnFail = Value True\<rparr>"

text \<open>
  \<^verbatim>\<open>configOverrides = () => ({...defaultConfig, ...config})\<close>. The imported constant
  \<^verbatim>\<open>config\<close> is the user's configuration file, which is not under the sources: it is the
  parameter here.
\<close>

definition configOverrides :: "baseConfig \<Rightarrow> baseConfig" where
  "configOverrides config =
     \<lparr>browser = spreadField (browser defaultConfig) (browser config),
      headless = spreadField (headless defaultConfig) (headless config),
      actionTimeout = spreadField (actionTimeout defaultConfig) (actionTimeout config),
      logs = spreadField (logs defaultConfig) (logs config),
      throwOnFail = spreadField (throwOnFail defaultConfig) (throwOnFail config)\<rparr>"

definition getActionOptionsFromConfig :: "baseConfig \<Rightarrow> actionOptions" where
  "getActionOptionsFromConfig config =
     \<lparr>timeout = readField (actionTimeout config),
      log = readField (logs config),
      throwOnFail' = readField (throwOnFail config)\<rparr>"

text \<open>
  The object literal every operation builds:
  \<^verbatim>\<open>{ message: m, ...this.actionOptions, ...options }\<close>, where \<^verbatim>\<open>options\<close> is an optional
  parameter (spreading \<^verbatim>\<open>undefined\<close> copies nothing).
\<close>

definition mergeOptions :: "string \<Rightarrow> actionOptions \<Rightarrow> actionOptions option \<Rightarrow> safeRunOptions" where
  "mergeOptions m this_actionOptions options =
     (case options of
        None \<Rightarrow>
          \<lparr>timeout = timeout this_actionOptions, log = log this_actionOptions,
           throwOnFail' = throwOnFail' this_actionOptions, message = m\<rparr>
      | Some opts \<Rightarrow>
          \<lparr>timeout = spreadField (timeout this_actionOptions) (timeout opts),
           log = spreadField (log this_actionOptions) (log opts),
           throwOnFail' = spreadField (throwOnFail' this_actionOptions) (throwOnFail' opts),
           message = m\<rparr>)"

text \<open>
  The whole resolution for one call of a session created from \<open>config\<close>: library defaults,
  then the configuration file, then the call site.
\<close>

definition resolveOptions :: "baseConfig \<Rightarrow> string \<Rightarrow> actionOptions option \<Rightarrow> safeRunOptions" where
  "resolveOptions config m options =
     mergeOptions m (getActionOptionsFromConfig (configOverrides config)) options"

section \<open>The action policy: safeRun (common/utils.ts)\<close>

text \<open>
  Every state this development threads through an operation extends \<open>sys\<close>, which holds the
  console. An asynchronous callback is a function from the state to its outcome (\<open>Inl\<close> a
  thrown error, \<open>Inr\<close> the resolved value) and the state it leaves behind.
\<close>

record sys =
  console :: "log_entry list"

type_synonym ('m, 'a) js = "'m sys_scheme \<Rightarrow> (error + 'a) \<times> 'm sys_scheme"

text \<open>
  \<^verbatim>\<open>safeRun\<close> resolves to \<^verbatim>\<open>results\<close>, which stays \<^verbatim>\<open>undefined\<close> when the callback threw
  and the error was swallowed: the resolved value is \<open>Some v\<close> for the callback's own result
  \<open>v\<close> and \<open>None\<close> for that \<^verbatim>\<open>undefined\<close>.
\<close>

definition safeRun ::
  "'x safeRunOptions_scheme \<Rightarrow> ('m, 'a) js \<Rightarrow> ('m, 'a option) js" where
  "safeRun options callBack s =
     (let s1 = (if truthy (log options)
                then s\<lparr>console := console s @ [LogMessage (message options)]\<rparr> else s)
      in case callBack s1 of
           (Inr results, s2) \<Rightarrow> (Inr (Some results), s2)
         | (Inl e, s2) \<Rightarrow>
             if truthy (throwOnFail' options) then (Inl e, s2)
             else (Inr None, s2\<lparr>console := console s2 @ [LogError e]\<rparr>))"

text \<open>The state in which \<^verbatim>\<open>safeRun\<close> starts the callback: the message is logged first.\<close>

definition logged :: "'x safeRunOptions_scheme \<Rightarrow> 'm sys_scheme \<Rightarrow> 'm sys_scheme" where
  "logged options s =
     (if truthy (log options)
      then s\<lparr>console := console s @ [LogMessage (message options)]\<rparr> else s)"

text \<open>Sequencing of two awaited steps: the second runs only if the first did not throw.\<close>

definition andThen :: "('s \<Rightarrow> (error + 'a) \<times> 's) \<Rightarrow> ('a \<Rightarrow> 's \<Rightarrow> (error + 'b) \<times> 's) \<Rightarrow> 's \<Rightarrow> (error + 'b) \<times> 's" where
  "andThen m f s = (case m s of (Inl e, s1) \<Rightarrow> (Inl e, s1) | (Inr v, s1) \<Rightarrow> f v s1)"

section \<open>JavaScript arrays and template literals\<close>

text \<open>\<^verbatim>\<open>xs[i]\<close> for an integer \<open>i\<close>: \<^verbatim>\<open>undefined\<close> (\<open>None\<close>) outside \<open>0 .. length - 1\<close>.\<close>

definition js_index :: "'a list \<Rightarrow> int \<Rightarrow> 'a option" where
  "js_index xs i = (if 0 \<le> i \<and> i < int (length xs) then Some (xs ! nat i) else None)"

text \<open>
  \<^verbatim>\<open>xs.splice(start, 1)\<close> for an integer \<open>start\<close>: a negative start counts from the end
  (clamped to 0), a start beyond the end is clamped to the length, and at most one element
  is removed from there.
\<close>

definition js_splice1 :: "'a list \<Rightarrow> int \<Rightarrow> 'a list" where
  "js_splice1 xs start =
     (let n = int (length xs);
          k = nat (if start < 0 then max (n + start) 0 else min start n)
      in take k xs @ drop (Suc k) xs)"

text \<open>\<^verbatim>\<open>if (url)\<close> for an optional string: \<^verbatim>\<open>undefined\<close> and the empty string are falsy.\<close>

fun truthyString :: "string option \<Rightarrow> bool" where
  "truthyString None = False"
| "truthyString (Some u) = (u \<noteq> [])"

text \<open>
  \<^verbatim>\<open>${n}\<close> for a Number \<open>n\<close> with an integer value. Below \<open>2^53\<close> these are the decimal
  digits. A larger integer is read as the nearest double (ties to even), and the text is
  the shortest digit string that still denotes that double, followed by zeros up to 21
  digits and in exponent form beyond; past the largest double it is \<^verbatim>\<open>Infinity\<close>.
\<close>

function showDigits :: "int \<Rightarrow> string" where
  "showDigits n =
     (if n < 10 then [''0123456789'' ! nat n]
      else showDigits (n div 10) @ [''0123456789'' ! nat (n mod 10)])"
  by pat_completeness auto
termination
  by (relation "measure nat") auto

declare showDigits.simps [simp del]

function bits :: "int \<Rightarrow> nat" where
  "bits n = (if n \<le> 0 then 0 else Suc (bits (n div 2)))"
  by pat_completeness auto
termination
  by (relation "measure nat") auto

declare bits.simps [simp del]

definition toDouble :: "int \<Rightarrow> int" where
  "toDouble v =
     (if bits v \<le> 53 then v
      else let e = bits v - 53; q = v div 2 ^ e; r = v mod 2 ^ e; half = 2 ^ (e - 1)
           in (if half < r \<or> (r = half \<and> odd q) then q + 1 else q) * 2 ^ e)"

text \<open>Does the integer \<open>x\<close> round to the double \<open>v\<close> (of more than 53 bits)?\<close>

definition roundsTo :: "int \<Rightarrow> int \<Rightarrow> bool" where
  "roundsTo v x =
     (let e = bits v - 53; m = v div 2 ^ e;
          lo2 = 2 * v - (if m = 2 ^ 52 then 2 ^ (e - 1) else 2 ^ e);
          hi2 = 2 * v + 2 ^ e
      in if even m then lo2 \<le> 2 * x \<and> 2 * x \<le> hi2 else lo2 < 2 * x \<and> 2 * x < hi2)"

text \<open>
  The shortest digits \<open>s\<close> and their number \<open>k\<close> for a double \<open>v\<close> of \<open>nd\<close> decimal digits,
  trying \<open>k = nd - fuel\<close> first; of two candidates of one length the closer one, and the
  even one at equal distance.
\<close>

fun shortest :: "int \<Rightarrow> nat \<Rightarrow> nat \<Rightarrow> int \<times> nat" where
  "shortest v nd 0 = (v, nd)"
| "shortest v nd (Suc fuel) =
     (let k = nd - Suc fuel; scale = 10 ^ Suc fuel;
          a = v div scale; b = a + 1;
          okA = roundsTo v (a * scale);
          okB = (b < 10 ^ k \<and> roundsTo v (b * scale))
      in if okA \<and> okB then
           (if v - a * scale < b * scale - v then (a, k)
            else if b * scale - v < v - a * scale then (b, k)
            else if even a then (a, k) else (b, k))
         else if okA then (a, k)
         else if okB then (b, k)
         else shortest v nd fuel)"

definition showDouble :: "int \<Rightarrow> string" where
  "showDouble v =
     (let nd = length (showDigits v);
          (s, k, n) = (if roundsTo v (10 ^ nd) then (1, 1, nd + 1)
                       else (case shortest v nd (nd - 1) of (s, k) \<Rightarrow> (s, k, nd)));
          digits = showDigits s
      in if n \<le> 21 then digits @ replicate (n - k) (CHR ''0'')
         else (if k = 1 then digits else take 1 digits @ ''.'' @ drop 1 digits)
              @ ''e+'' @ showDigits (int n - 1))"

text \<open>The text of a Number with a non-negative integer value.\<close>

definition showNumber :: "int \<Rightarrow> string" where
  "showNumber v =
     (if v < 2 ^ 53 then showDigits v
      else if 2 ^ 1024 - 2 ^ 970 \<le> v then ''Infinity''
      else showDouble (toDouble v))"

definition showInt :: "int \<Rightarrow> string" where
  "showInt i = (if i < 0 then ''-'' @ showNumber (- i) else showNumber i)"

section \<open>The automation engine\<close>

text \<open>
  The engines (Playwright, Puppeteer) are outside the repository. The sessions and elements
  below use them through the following operations only, modelled on one browser with one
  browsing context: a page is addressed by its index in \<open>pages\<close>; \<open>web\<close> is the content a
  navigation to a URL loads (\<open>None\<close>: the navigation fails); \<open>matches\<close> is the engine's
  selector matching; a document is the list of its nodes in document order.
\<close>

record node =
  nid :: nat
  tagName :: string
  innerText :: string
  innerHTML :: string
  disabled :: bool

record page_state =
  url :: string
  isClosed :: bool
  document :: "node list"

record driver = sys +
  pages :: "page_state list"
  contextClosed :: bool
  browserClosed :: bool
  web :: "string \<Rightarrow> node list option"
  matches :: "string \<Rightarrow> node \<Rightarrow> bool"

definition alive :: "'m driver_scheme \<Rightarrow> nat \<Rightarrow> bool" where
  "alive w p \<longleftrightarrow>
     p < length (pages w) \<and> \<not> isClosed (pages w ! p) \<and> \<not> contextClosed w \<and> \<not> browserClosed w"

definition launch :: "(string \<Rightarrow> node list option) \<Rightarrow> (string \<Rightarrow> node \<Rightarrow> bool) \<Rightarrow> driver" where
  "launch content sel_matches =
     \<lparr>console = [], pages = [], contextClosed = False, browserClosed = False,
      web = content, matches = sel_matches\<rparr>"

definition context_newPage :: "'m driver_scheme \<Rightarrow> (error + nat) \<times> 'm driver_scheme" where
  "context_newPage w =
     (if contextClosed w \<or> browserClosed w then (Inl (DriverError ''Target closed''), w)
      else (Inr (length (pages w)),
            w\<lparr>pages := pages w @ [\<lparr>url = ''about:blank'', isClosed = False, document = []\<rparr>]\<rparr>))"

definition page_goto :: "nat \<Rightarrow> string \<Rightarrow> 'm driver_scheme \<Rightarrow> (error + unit) \<times> 'm driver_scheme" where
  "page_goto p u w =
     (if \<not> alive w p then (Inl (DriverError ''Target closed''), w)
      else case web w u of
             None \<Rightarrow> (Inl (DriverError ''Navigation failed''), w)
           | Some d \<Rightarrow>
               (Inr (), w\<lparr>pages := (pages w)[p := \<lparr>url = u, isClosed = False, document = d\<rparr>]\<rparr>))"

definition page_url :: "nat \<Rightarrow> 'm driver_scheme \<Rightarrow> (error + string) \<times> 'm driver_scheme" where
  "page_url p w =
     (if p < length (pages w) then (Inr (url (pages w ! p)), w)
      else (Inl (DriverError ''No such page''), w))"

definition page_close :: "nat \<Rightarrow> 'm driver_scheme \<Rightarrow> (error + unit) \<times> 'm driver_scheme" where
  "page_close p w =
     (if p < length (pages w)
      then (Inr (), w\<lparr>pages := (pages w)[p := (pages w ! p)\<lparr>isClosed := True\<rparr>]\<rparr>)
      else (Inl (DriverError ''No such page''), w))"

definition context_close :: "'m driver_scheme \<Rightarrow> (error + unit) \<times> 'm driver_scheme" where
  "context_close w = (Inr (), w\<lparr>contextClosed := True\<rparr>)"

definition browser_close :: "'m driver_scheme \<Rightarrow> (error + unit) \<times> 'm driver_scheme" where
  "browser_close w = (Inr (), w\<lparr>browserClosed := True\<rparr>)"

text \<open>The nodes of page \<open>p\<close> that match a selector now, in document order.\<close>

definition querySelectorAll :: "'m driver_scheme \<Rightarrow> nat \<Rightarrow> string \<Rightarrow> node list" where
  "querySelectorAll w p sel =
     (if p < length (pages w) then filter (matches w sel) (document (pages w ! p)) else [])"

section \<open>Browser sessions: PlaywrightBrowser and PuppeteerBrowser\<close>

text \<open>
  Both classes declare the same private fields, so one record serves both; the engine state
  the session owns (its \<^verbatim>\<open>browser\<close> and \<^verbatim>\<open>context\<close>) is the \<open>driver\<close> part of the record.
  \<^verbatim>\<open>this.page\<close> is \<open>None\<close> when it holds \<^verbatim>\<open>undefined\<close>.
\<close>

record session = driver +
  tabs :: "nat list"
  currentTab :: int
  page :: "nat option"
  config :: baseConfig
  actionOptions :: actionOptions

text \<open>A method call on \<^verbatim>\<open>this.page\<close> (or on any value that may be \<^verbatim>\<open>undefined\<close>).\<close>

definition on_page :: "nat option \<Rightarrow> (nat \<Rightarrow> 's \<Rightarrow> (error + 'a) \<times> 's) \<Rightarrow> 's \<Rightarrow> (error + 'a) \<times> 's" where
  "on_page pg f s =
     (case pg of
        None \<Rightarrow> (Inl (TypeError ''Cannot read properties of undefined''), s)
      | Some p \<Rightarrow> f p s)"

text \<open>
  The private constructor, after \<^verbatim>\<open>init\<close> has launched the engine and opened the context
  and the first page: \<^verbatim>\<open>this.tabs.push(this.page)\<close>, \<^verbatim>\<open>currentTab = 0\<close>.
\<close>

definition construct :: "driver \<Rightarrow> nat \<Rightarrow> baseConfig \<Rightarrow> session" where
  "construct w pg cfg =
     driver.extend w
       \<lparr>tabs = [pg], currentTab = 0, page = Some pg, config = cfg,
        actionOptions = getActionOptionsFromConfig cfg\<rparr>"

definition PlaywrightBrowser_init ::
  "baseConfig \<Rightarrow> (string \<Rightarrow> node list option) \<Rightarrow> (string \<Rightarrow> node \<Rightarrow> bool) \<Rightarrow> error + session" where
  "PlaywrightBrowser_init user_config content sel_matches =
     (let cfg = configOverrides user_config in
      case browser cfg of
        Value e \<Rightarrow>
          (case context_newPage (launch content sel_matches) of
             (Inl err, w) \<Rightarrow> Inl err
           | (Inr pg, w) \<Rightarrow> Inr (construct w pg cfg))
      | _ \<Rightarrow> Inl (Error ''Browser undefined is not supported for playwright''))"

definition PuppeteerBrowser_init ::
  "baseConfig \<Rightarrow> (string \<Rightarrow> node list option) \<Rightarrow> (string \<Rightarrow> node \<Rightarrow> bool) \<Rightarrow> error + session" where
  "PuppeteerBrowser_init user_config content sel_matches =
     (let cfg = configOverrides user_config in
      case context_newPage (launch content sel_matches) of
        (Inl err, w) \<Rightarrow> Inl err
      | (Inr pg, w) \<Rightarrow> Inr (construct w pg cfg))"

subsection \<open>PlaywrightBrowser (playwright.browser.ts)\<close>

definition pw_navigateTo :: "string \<Rightarrow> actionOptions option \<Rightarrow> 'm session_scheme \<Rightarrow> (error + unit option) \<times> 'm session_scheme" where
  "pw_navigateTo u options s =
     safeRun (mergeOptions (''Navigating to '' @ u) (actionOptions s) options)
       (\<lambda>s. on_page (page s) (\<lambda>p. page_goto p u) s) s"

definition pw_getUrl :: "actionOptions option \<Rightarrow> 'm session_scheme \<Rightarrow> (error + string option) \<times> 'm session_scheme" where
  "pw_getUrl options s =
     safeRun (mergeOptions ''Getting URL'' (actionOptions s) options)
       (\<lambda>s. on_page (page s) page_url s) s"

definition pw_openTab_body :: "string option \<Rightarrow> 'm session_scheme \<Rightarrow> (error + unit) \<times> 'm session_scheme" where
  "pw_openTab_body u s =
     andThen context_newPage
       (\<lambda>newPage s1.
          let s2 = s1\<lparr>tabs := tabs s1 @ [newPage]\<rparr>;
              s3 = s2\<lparr>currentTab := int (length (tabs s2)) - 1\<rparr>;
              s4 = s3\<lparr>page := Some newPage\<rparr>
          in if truthyString u then on_page (page s4) (\<lambda>p. page_goto p (the u)) s4
             else (Inr (), s4)) s"

definition pw_openTab :: "string option \<Rightarrow> actionOptions option \<Rightarrow> 'm session_scheme \<Rightarrow> (error + unit option) \<times> 'm session_scheme" where
  "pw_openTab u options s =
     safeRun (mergeOptions ''Opening new tab'' (actionOptions s) options) (pw_openTab_body u) s"

definition pw_closeTab_body :: "'m session_scheme \<Rightarrow> (error + unit) \<times> 'm session_scheme" where
  "pw_closeTab_body s =
     andThen (on_page (page s) page_close)
       (\<lambda>_. andThen
          (\<lambda>s1. if length (tabs s1) = 0
                then andThen context_close (\<lambda>_. browser_close) s1
                else (Inr (), s1))
          (\<lambda>_ s2.
             let s3 = s2\<lparr>tabs := js_splice1 (tabs s2) (currentTab s2)\<rparr>;
                 s4 = s3\<lparr>currentTab := int (length (tabs s3)) - 1\<rparr>;
                 s5 = s4\<lparr>page := js_index (tabs s4) (currentTab s4)\<rparr>
             in (Inr (), s5))) s"

definition pw_closeTab :: "actionOptions option \<Rightarrow> 'm session_scheme \<Rightarrow> (error + unit option) \<times> 'm session_scheme" where
  "pw_closeTab options s =
     safeRun (mergeOptions ''Closing tab'' (actionOptions s) options) pw_closeTab_body s"

text \<open>The guarded body shared, word for word, by the two \<^verbatim>\<open>switchToTab\<close> methods.\<close>

definition switchToTab_body :: "int \<Rightarrow> 'm session_scheme \<Rightarrow> (error + unit) \<times> 'm session_scheme" where
  "switchToTab_body tabNumber s =
     (if tabNumber < 0 \<or> tabNumber > int (length (tabs s)) - 1
      then (Inl (Error (''Tab '' @ showInt tabNumber @ '' does not exist'')), s)
      else (let s1 = s\<lparr>currentTab := tabNumber\<rparr>;
                s2 = s1\<lparr>page := js_index (tabs s1) (currentTab s1)\<rparr>
            in (Inr (), s2)))"

definition pw_switchToTab :: "int \<Rightarrow> actionOptions option \<Rightarrow> 'm session_scheme \<Rightarrow> (error + unit option) \<times> 'm session_scheme" where
  "pw_switchToTab tabNumber options s =
     safeRun (mergeOptions (''Switching to tab '' @ showInt tabNumber) (actionOptions s) options)
       (switchToTab_body tabNumber) s"

definition pw_closeBrowser :: "actionOptions option \<Rightarrow> 'm session_scheme \<Rightarrow> (error + unit option) \<times> 'm session_scheme" where
  "pw_closeBrowser options s =
     safeRun (mergeOptions ''Closing browser'' (actionOptions s) options) browser_close s"

subsection \<open>PuppeteerBrowser (the second file of common/utils.ts)\<close>

text \<open>
  \<^verbatim>\<open>navigateTo\<close> writes its message in double quotes, so it is the literal text and not a
  template.
\<close>

definition pp_navigateTo :: "string \<Rightarrow> actionOptions option \<Rightarrow> 'm session_scheme \<Rightarrow> (error + unit option) \<times> 'm session_scheme" where
  "pp_navigateTo u options s =
     safeRun (mergeOptions ''Navigating to ${url}'' (actionOptions s) options)
       (\<lambda>s. on_page (page s) (\<lambda>p. page_goto p u) s) s"

definition pp_getUrl :: "actionOptions option \<Rightarrow> 'm session_scheme \<Rightarrow> (error + string option) \<times> 'm session_scheme" where
  "pp_getUrl options s =
     safeRun (mergeOptions ''Getting url'' (actionOptions s) options)
       (\<lambda>s. on_page (page s) page_url s) s"

definition pp_switchToTab :: "int \<Rightarrow> actionOptions option \<Rightarrow> 'm session_scheme \<Rightarrow> (error + unit option) \<times> 'm session_scheme" where
  "pp_switchToTab tabNumber options s =
     safeRun (mergeOptions (''Switching to tab '' @ showInt tabNumber) (actionOptions s) options)
       (switchToTab_body tabNumber) s"

text \<open>
  \<^verbatim>\<open>openTab\<close> does not assign \<^verbatim>\<open>this.page\<close>; with a URL it calls the session's own
  \<^verbatim>\<open>navigateTo(url)\<close> (no call-site options), which goes to \<^verbatim>\<open>this.page\<close>.
\<close>

definition pp_openTab_body :: "string option \<Rightarrow> 'm session_scheme \<Rightarrow> (error + unit) \<times> 'm session_scheme" where
  "pp_openTab_body u s =
     andThen context_newPage
       (\<lambda>newPage s1.
          let s2 = s1\<lparr>tabs := tabs s1 @ [newPage]\<rparr>;
              s3 = s2\<lparr>currentTab := int (length (tabs s2)) - 1\<rparr>
          in if truthyString u
             then andThen (pp_navigateTo (the u) None) (\<lambda>_ s4. (Inr (), s4)) s3
             else (Inr (), s3)) s"

definition pp_openTab :: "string option \<Rightarrow> actionOptions option \<Rightarrow> 'm session_scheme \<Rightarrow> (error + unit option) \<times> 'm session_scheme" where
  "pp_openTab u options s =
     safeRun (mergeOptions ''Opening new tab'' (actionOptions s) options) (pp_openTab_body u) s"

definition pp_closeTab_body :: "'m session_scheme \<Rightarrow> (error + unit) \<times> 'm session_scheme" where
  "pp_closeTab_body s =
     andThen (on_page (js_index (tabs s) (currentTab s)) page_close)
       (\<lambda>_ s1.
          let s2 = s1\<lparr>tabs := js_splice1 (tabs s1) (currentTab s1)\<rparr>;
              s3 = s2\<lparr>currentTab := int (length (tabs s2)) - 1\<rparr>
          in (Inr (), s3)) s"

definition pp_closeTab :: "actionOptions option \<Rightarrow> 'm session_scheme \<Rightarrow> (error + unit option) \<times> 'm session_scheme" where
  "pp_closeTab options s =
     safeRun (mergeOptions ''Closing tab'' (actionOptions s) options) pp_closeTab_body s"

definition pp_switchTab :: "int \<Rightarrow> actionOptions option \<Rightarrow> 'm session_scheme \<Rightarrow> (error + unit option) \<times> 'm session_scheme" where
  "pp_switchTab tabNumber options s =
     safeRun (mergeOptions ''Switching tab'' (actionOptions s) options)
       (\<lambda>s. (Inr (), s\<lparr>currentTab := tabNumber\<rparr>)) s"

text \<open>The invariant of the data model: the current-tab index addresses a tab.\<close>

definition tab_inv :: "'m session_scheme \<Rightarrow> bool" where
  "tab_inv s \<longleftrightarrow> 0 \<le> currentTab s \<and> currentTab s < int (length (tabs s))"

section \<open>Elements over captured handles: PuppeteerSelector (puppeteer.elements.ts)\<close>

text \<open>
  What \<^verbatim>\<open>await this.elementHandle\<close> yields: a handle on a node (its \<open>nid\<close>), \<^verbatim>\<open>null\<close>
  (the query matched nothing), \<^verbatim>\<open>undefined\<close>, or the rejection of the promise.
\<close>

datatype handle = Handle nat | Null | Undef | Rejected error

text \<open>
  The constructor's first argument is \<^verbatim>\<open>page.locator(selector)\<close> in the session's
  \<^verbatim>\<open>selector\<close> and the promise \<^verbatim>\<open>page.$(selector) as any\<close> everywhere else.
\<close>

datatype pp_locator = Locator nat string | PromiseCast handle

record PuppeteerSelector =
  locator :: pp_locator
  el_config :: baseConfig
  elementHandle :: handle
  el_page :: nat
  selectorString :: string

text \<open>\<^verbatim>\<open>page.$(sel)\<close>: the query is issued when the expression is evaluated.\<close>

definition page_S :: "'m driver_scheme \<Rightarrow> nat \<Rightarrow> string \<Rightarrow> handle" where
  "page_S w p sel =
     (if \<not> alive w p then Rejected (DriverError ''Target closed'')
      else case querySelectorAll w p sel of [] \<Rightarrow> Null | n # _ \<Rightarrow> Handle (nid n))"

text \<open>\<^verbatim>\<open>await page.$$(sel)\<close>: the handles of all current matches, in document order.\<close>

definition page_SS :: "nat \<Rightarrow> string \<Rightarrow> 'm driver_scheme \<Rightarrow> (error + nat list) \<times> 'm driver_scheme" where
  "page_SS p sel w =
     (if \<not> alive w p then (Inl (DriverError ''Target closed''), w)
      else (Inr (map nid (querySelectorAll w p sel)), w))"

text \<open>\<^verbatim>\<open>await page.$eval(sel, f)\<close>: \<open>f\<close> on the first current match; the engine throws without one.\<close>

definition page_eval :: "nat \<Rightarrow> string \<Rightarrow> (node \<Rightarrow> 'a) \<Rightarrow> 'm driver_scheme \<Rightarrow> (error + 'a) \<times> 'm driver_scheme" where
  "page_eval p sel f w =
     (if \<not> alive w p then (Inl (DriverError ''Target closed''), w)
      else case querySelectorAll w p sel of
             [] \<Rightarrow> (Inl (DriverError (''failed to find element matching selector '' @ sel)), w)
           | n # _ \<Rightarrow> (Inr (f n), w))"

text \<open>
  \<^verbatim>\<open>(await this.elementHandle).member(...)\<close>: a TypeError on \<^verbatim>\<open>null\<close> and \<^verbatim>\<open>undefined\<close>;
  a handle whose node has left the document is stale.
\<close>

definition await_handle :: "handle \<Rightarrow> nat \<Rightarrow> (node \<Rightarrow> 'a) \<Rightarrow> 'm driver_scheme \<Rightarrow> (error + 'a) \<times> 'm driver_scheme" where
  "await_handle h p f w =
     (case h of
        Rejected e \<Rightarrow> (Inl e, w)
      | Null \<Rightarrow> (Inl (TypeError ''Cannot read properties of null''), w)
      | Undef \<Rightarrow> (Inl (TypeError ''Cannot read properties of undefined''), w)
      | Handle i \<Rightarrow>
          if \<not> alive w p then (Inl (DriverError ''Target closed''), w)
          else case find (\<lambda>n. nid n = i) (document (pages w ! p)) of
                 None \<Rightarrow> (Inl (DriverError ''Node is detached from document''), w)
               | Some n \<Rightarrow> (Inr (f n), w))"

text \<open>\<^verbatim>\<open>await locator.click()\<close> on a real locator: it needs a match.\<close>

definition locator_click :: "nat \<Rightarrow> string \<Rightarrow> 'm driver_scheme \<Rightarrow> (error + unit) \<times> 'm driver_scheme" where
  "locator_click p sel w =
     (if \<not> alive w p then (Inl (DriverError ''Target closed''), w)
      else case querySelectorAll w p sel of
             [] \<Rightarrow> (Inl (DriverError ''Timed out waiting for the element''), w)
           | n # _ \<Rightarrow> (Inr (), w))"

text \<open>\<^verbatim>\<open>PuppeteerBrowser.selector\<close>.\<close>

definition pp_selector :: "string \<Rightarrow> 'm session_scheme \<Rightarrow> error + PuppeteerSelector" where
  "pp_selector sel s =
     (case page s of
        None \<Rightarrow> Inl (TypeError ''Cannot read properties of undefined'')
      | Some p \<Rightarrow>
          Inr \<lparr>locator = Locator p sel, el_config = config s, elementHandle = page_S s p sel,
               el_page = p, selectorString = sel\<rparr>)"

definition pp_click :: "PuppeteerSelector \<Rightarrow> actionOptions option \<Rightarrow> ('m driver_ext, unit option) js" where
  "pp_click el options w =
     safeRun (mergeOptions ''Clicking on element'' (getActionOptionsFromConfig (el_config el)) options)
       (\<lambda>w. case locator el of
               Locator p sel \<Rightarrow> locator_click p sel w
             | PromiseCast h \<Rightarrow> (Inl (TypeError ''this.locator.click is not a function''), w)) w"

text \<open>\<^verbatim>\<open>getProperty(name)\<close> yields a JSHandle, and its \<^verbatim>\<open>toString()\<close> prefixes the value.\<close>

definition pp_getText :: "PuppeteerSelector \<Rightarrow> actionOptions option \<Rightarrow> ('m driver_ext, string option) js" where
  "pp_getText el options w =
     safeRun (mergeOptions ''Getting text from element'' (getActionOptionsFromConfig (el_config el)) options)
       (await_handle (elementHandle el) (el_page el) (\<lambda>n. ''JSHandle:'' @ innerText n)) w"

definition pp_isEnabled :: "PuppeteerSelector \<Rightarrow> actionOptions option \<Rightarrow> ('m driver_ext, bool option) js" where
  "pp_isEnabled el options w =
     safeRun (mergeOptions ''Checking if element is enabled'' (getActionOptionsFromConfig (el_config el)) options)
       (page_eval (el_page el) ''button'' disabled) w"

definition pp_count :: "PuppeteerSelector \<Rightarrow> actionOptions option \<Rightarrow> ('m driver_ext, nat option) js" where
  "pp_count el options w =
     safeRun (mergeOptions ''Counting elements'' (getActionOptionsFromConfig (el_config el)) options)
       (andThen (page_SS (el_page el) (selectorString el)) (\<lambda>hs w1. (Inr (length hs), w1))) w"

definition pp_getHTML :: "PuppeteerSelector \<Rightarrow> actionOptions option \<Rightarrow> ('m driver_ext, string option) js" where
  "pp_getHTML el options w =
     safeRun (mergeOptions ''Getting HTML from element'' (getActionOptionsFromConfig (el_config el)) options)
       (page_eval (el_page el) (selectorString el) innerHTML) w"

text \<open>
  The child the three loops hand to the callback:
  \<^verbatim>\<open>new PuppeteerSelector(this.page.$(this.selectorString) as any, this.config, element,
  this.page, this.selectorString)\<close>.
\<close>

definition pp_child :: "PuppeteerSelector \<Rightarrow> nat \<Rightarrow> 'm driver_scheme \<Rightarrow> PuppeteerSelector" where
  "pp_child el element w =
     \<lparr>locator = PromiseCast (page_S w (el_page el) (selectorString el)),
      el_config = el_config el, elementHandle = Handle element,
      el_page = el_page el, selectorString = selectorString el\<rparr>"

text \<open>
  What a slot of the array returned by \<^verbatim>\<open>filter\<close> holds at run time: the casts
  \<^verbatim>\<open>as any as IBaseElement\<close> change the static type only.
\<close>

datatype runtime_value = ElementHandleObject nat | PuppeteerSelectorObject PuppeteerSelector

fun isElement :: "runtime_value \<Rightarrow> bool" where
  "isElement (PuppeteerSelectorObject el) = True"
| "isElement (ElementHandleObject h) = False"

fun pp_forEach_loop ::
  "PuppeteerSelector \<Rightarrow> (PuppeteerSelector \<Rightarrow> nat \<Rightarrow> ('m driver_ext, unit) js) \<Rightarrow> nat list \<Rightarrow> nat \<Rightarrow>
   ('m driver_ext, unit) js" where
  "pp_forEach_loop el callback [] i w = (Inr (), w)"
| "pp_forEach_loop el callback (element # elements) i w =
     (case callback (pp_child el element w) i w of
        (Inl e, w1) \<Rightarrow> (Inl e, w1)
      | (Inr u, w1) \<Rightarrow> pp_forEach_loop el callback elements (Suc i) w1)"

definition pp_forEach ::
  "PuppeteerSelector \<Rightarrow> (PuppeteerSelector \<Rightarrow> nat \<Rightarrow> ('m driver_ext, unit) js) \<Rightarrow> actionOptions option \<Rightarrow>
   ('m driver_ext, unit option) js" where
  "pp_forEach el callback options w =
     safeRun (mergeOptions ''Iterating over elements'' (getActionOptionsFromConfig (el_config el)) options)
       (andThen (page_SS (el_page el) (selectorString el))
          (\<lambda>elements. pp_forEach_loop el callback elements 0)) w"

fun pp_filter_loop ::
  "PuppeteerSelector \<Rightarrow> (PuppeteerSelector \<Rightarrow> nat \<Rightarrow> ('m driver_ext, bool) js) \<Rightarrow> nat list \<Rightarrow> nat \<Rightarrow>
   runtime_value list \<Rightarrow> ('m driver_ext, runtime_value list) js" where
  "pp_filter_loop el callback [] i filteredElements w = (Inr filteredElements, w)"
| "pp_filter_loop el callback (element # elements) i filteredElements w =
     (case callback (pp_child el element w) i w of
        (Inl e, w1) \<Rightarrow> (Inl e, w1)
      | (Inr result, w1) \<Rightarrow>
          pp_filter_loop el callback elements (Suc i)
            (if result then filteredElements @ [ElementHandleObject element] else filteredElements) w1)"

definition pp_filter ::
  "PuppeteerSelector \<Rightarrow> (PuppeteerSelector \<Rightarrow> nat \<Rightarrow> ('m driver_ext, bool) js) \<Rightarrow> actionOptions option \<Rightarrow>
   ('m driver_ext, runtime_value list option) js" where
  "pp_filter el callback options w =
     safeRun (mergeOptions ''Filtering elements'' (getActionOptionsFromConfig (el_config el)) options)
       (andThen (page_SS (el_page el) (selectorString el))
          (\<lambda>elements. pp_filter_loop el callback elements 0 [])) w"

fun pp_map_loop ::
  "PuppeteerSelector \<Rightarrow> (PuppeteerSelector \<Rightarrow> nat \<Rightarrow> ('m driver_ext, 'r) js) \<Rightarrow> nat list \<Rightarrow> nat \<Rightarrow>
   'r list \<Rightarrow> ('m driver_ext, 'r list) js" where
  "pp_map_loop el callback [] i mappedElements w = (Inr mappedElements, w)"
| "pp_map_loop el callback (element # elements) i mappedElements w =
     (case callback (pp_child el element w) i w of
        (Inl e, w1) \<Rightarrow> (Inl e, w1)
      | (Inr r, w1) \<Rightarrow> pp_map_loop el callback elements (Suc i) (mappedElements @ [r]) w1)"

definition pp_map ::
  "PuppeteerSelector \<Rightarrow> (PuppeteerSelector \<Rightarrow> nat \<Rightarrow> ('m driver_ext, 'r) js) \<Rightarrow> actionOptions option \<Rightarrow>
   ('m driver_ext, 'r list option) js" where
  "pp_map el callback options w =
     safeRun (mergeOptions ''Mapping elements'' (getActionOptionsFromConfig (el_config el)) options)
       (andThen (page_SS (el_page el) (selectorString el))
          (\<lambda>elements. pp_map_loop el callback elements 0 [])) w"

text \<open>
  \<^verbatim>\<open>nth\<close> takes \<^verbatim>\<open>(this.page.$$(this.selectorString) as any)[index]\<close> without awaiting:
  the indexed object is the promise, which has no numeric properties, so the member read is
  \<^verbatim>\<open>undefined\<close> for every index.
\<close>

definition promise_member :: "int \<Rightarrow> handle" where
  "promise_member index = Undef"

definition pp_nth :: "PuppeteerSelector \<Rightarrow> int \<Rightarrow> 'm driver_scheme \<Rightarrow> PuppeteerSelector" where
  "pp_nth el index w =
     \<lparr>locator = PromiseCast (page_S w (el_page el) (selectorString el)),
      el_config = el_config el, elementHandle = promise_member index,
      el_page = el_page el, selectorString = selectorString el\<rparr>"

section \<open>Elements over re-resolving locators: PlaywrightSelector (the second file of test.ts)\<close>

text \<open>
  A Playwright locator is a recipe: a selector on a page, narrowed by \<^verbatim>\<open>nth\<close>. The engine
  resolves it at every use; \<^verbatim>\<open>nth\<close> with a negative index counts from the last match.
\<close>

datatype pw_loc = PageLocator nat string | Nth pw_loc int

record PlaywrightSelector =
  pw_locator :: pw_loc
  pw_config :: baseConfig

fun locator_page :: "pw_loc \<Rightarrow> nat" where
  "locator_page (PageLocator p sel) = p"
| "locator_page (Nth l i) = locator_page l"

fun resolve :: "'m driver_scheme \<Rightarrow> pw_loc \<Rightarrow> node list" where
  "resolve w (PageLocator p sel) = querySelectorAll w p sel"
| "resolve w (Nth l i) =
     (let xs = resolve w l; n = int (length xs)
      in if 0 \<le> i \<and> i < n then [xs ! nat i]
         else if i < 0 \<and> - i \<le> n then [xs ! nat (n + i)]
         else [])"

definition locator_count :: "pw_loc \<Rightarrow> 'm driver_scheme \<Rightarrow> (error + nat) \<times> 'm driver_scheme" where
  "locator_count l w =
     (if \<not> alive w (locator_page l) then (Inl (DriverError ''Target closed''), w)
      else (Inr (length (resolve w l)), w))"

text \<open>A single-target read is strict: exactly one node must resolve.\<close>

definition locator_innerText :: "pw_loc \<Rightarrow> 'm driver_scheme \<Rightarrow> (error + string) \<times> 'm driver_scheme" where
  "locator_innerText l w =
     (if \<not> alive w (locator_page l) then (Inl (DriverError ''Target closed''), w)
      else case resolve w l of
             [] \<Rightarrow> (Inl (DriverError ''Timed out waiting for the element''), w)
           | [n] \<Rightarrow> (Inr (innerText n), w)
           | _ \<Rightarrow> (Inl (DriverError ''strict mode violation''), w))"

definition pw_selector :: "string \<Rightarrow> 'm session_scheme \<Rightarrow> error + PlaywrightSelector" where
  "pw_selector sel s =
     (case page s of
        None \<Rightarrow> Inl (TypeError ''Cannot read properties of undefined'')
      | Some p \<Rightarrow> Inr \<lparr>pw_locator = PageLocator p sel, pw_config = config s\<rparr>)"

definition pw_getText :: "PlaywrightSelector \<Rightarrow> actionOptions option \<Rightarrow> ('m driver_ext, string option) js" where
  "pw_getText el options w =
     safeRun (mergeOptions ''Getting text from element'' (getActionOptionsFromConfig (pw_config el)) options)
       (locator_innerText (pw_locator el)) w"

definition pw_count :: "PlaywrightSelector \<Rightarrow> actionOptions option \<Rightarrow> ('m driver_ext, nat option) js" where
  "pw_count el options w =
     safeRun (mergeOptions ''Counting elements'' (getActionOptionsFromConfig (pw_config el)) options)
       (locator_count (pw_locator el)) w"

definition pw_nth :: "PlaywrightSelector \<Rightarrow> int \<Rightarrow> PlaywrightSelector" where
  "pw_nth el index = \<lparr>pw_locator = Nth (pw_locator el) index, pw_config = pw_config el\<rparr>"

text \<open>
  The three loops run \<^verbatim>\<open>for (let i = 0; i < count; i++)\<close> over the count taken once, with
  no \<^verbatim>\<open>safeRun\<close> around them: the recursion is over the indices \<open>[0..<count]\<close>.
\<close>

fun pw_forEach_loop ::
  "PlaywrightSelector \<Rightarrow> (PlaywrightSelector \<Rightarrow> nat \<Rightarrow> ('m driver_ext, unit) js) \<Rightarrow> nat list \<Rightarrow>
   ('m driver_ext, unit) js" where
  "pw_forEach_loop el callback [] w = (Inr (), w)"
| "pw_forEach_loop el callback (i # rest) w =
     (case callback (pw_nth el (int i)) i w of
        (Inl e, w1) \<Rightarrow> (Inl e, w1)
      | (Inr u, w1) \<Rightarrow> pw_forEach_loop el callback rest w1)"

definition pw_forEach ::
  "PlaywrightSelector \<Rightarrow> (PlaywrightSelector \<Rightarrow> nat \<Rightarrow> ('m driver_ext, unit) js) \<Rightarrow> ('m driver_ext, unit) js" where
  "pw_forEach el callback w =
     andThen (locator_count (pw_locator el)) (\<lambda>count. pw_forEach_loop el callback [0..<count]) w"

fun pw_filter_loop ::
  "PlaywrightSelector \<Rightarrow> (PlaywrightSelector \<Rightarrow> nat \<Rightarrow> ('m driver_ext, bool) js) \<Rightarrow> nat list \<Rightarrow>
   PlaywrightSelector list \<Rightarrow> ('m driver_ext, PlaywrightSelector list) js" where
  "pw_filter_loop el callback [] result w = (Inr result, w)"
| "pw_filter_loop el callback (i # rest) result w =
     (let element = pw_nth el (int i)
      in case callback element i w of
           (Inl e, w1) \<Rightarrow> (Inl e, w1)
         | (Inr keep, w1) \<Rightarrow>
             pw_filter_loop el callback rest (if keep then result @ [element] else result) w1)"

definition pw_filter ::
  "PlaywrightSelector \<Rightarrow> (PlaywrightSelector \<Rightarrow> nat \<Rightarrow> ('m driver_ext, bool) js) \<Rightarrow>
   ('m driver_ext, PlaywrightSelector list) js" where
  "pw_filter el callback w =
     andThen (locator_count (pw_locator el)) (\<lambda>count. pw_filter_loop el callback [0..<count] []) w"

fun pw_map_loop ::
  "PlaywrightSelector \<Rightarrow> (PlaywrightSelector \<Rightarrow> nat \<Rightarrow> ('m driver_ext, 'r) js) \<Rightarrow> nat list \<Rightarrow>
   'r list \<Rightarrow> ('m driver_ext, 'r list) js" where
  "pw_map_loop el callback [] result w = (Inr result, w)"
| "pw_map_loop el callback (i # rest) result w =
     (case callback (pw_nth el (int i)) i w of
        (Inl e, w1) \<Rightarrow> (Inl e, w1)
      | (Inr r, w1) \<Rightarrow> pw_map_loop el callback rest (result @ [r]) w1)"

definition pw_map ::
  "PlaywrightSelector \<Rightarrow> (PlaywrightSelector \<Rightarrow> nat \<Rightarrow> ('m driver_ext, 'r) js) \<Rightarrow>
   ('m driver_ext, 'r list) js" where
  "pw_map el callback w =
     andThen (locator_count (pw_locator el)) (\<lambda>count. pw_map_loop el callback [0..<count] []) w"

section \<open>A small web for the concrete instances\<close>

text \<open>
  Two empty documents, and one list page with two items and a disabled button; selectors
  are tag names.
\<close>

definition list_page :: "node list" where
  "list_page =
     [\<lparr>nid = 0, tagName = ''li'', innerText = ''first'', innerHTML = ''<b>first</b>'', disabled = False\<rparr>,
      \<lparr>nid = 1, tagName = ''li'', innerText = ''second'', innerHTML = ''<b>second</b>'', disabled = False\<rparr>,
      \<lparr>nid = 2, tagName = ''button'', innerText = ''Send'', innerHTML = ''Send'', disabled = True\<rparr>]"

definition example_web :: "string \<Rightarrow> node list option" where
  "example_web u =
     (if u = ''https://example.test'' then Some []
      else if u = ''https://example.test/2'' then Some []
      else if u = ''https://example.test/list'' then Some list_page
      else None)"

definition example_matches :: "string \<Rightarrow> node \<Rightarrow> bool" where
  "example_matches sel n \<longleftrightarrow> tagName n = sel"

definition quiet :: baseConfig where
  "quiet = \<lparr>browser = Absent, headless = Absent, actionTimeout = Absent, logs = Value False,
            throwOnFail = Absent\<rparr>"

definition lenient :: baseConfig where
  "lenient = \<lparr>browser = Absent, headless = Absent, actionTimeout = Absent, logs = Value False,
              throwOnFail = Value False\<rparr>"

text \<open>The session right after \<^verbatim>\<open>init\<close>, for a resolved configuration.\<close>

definition fresh_session :: "baseConfig \<Rightarrow> session" where
  "fresh_session cfg =
     \<lparr>console = [], pages = [\<lparr>url = ''about:blank'', isClosed = False, document = []\<rparr>],
      contextClosed = False, browserClosed = False, web = example_web, matches = example_matches,
      tabs = [0], currentTab = 0, page = Some 0, config = cfg,
      actionOptions = getActionOptionsFromConfig cfg\<rparr>"

text \<open>The fresh Puppeteer/Playwright session after \<^verbatim>\<open>navigateTo("https://example.test")\<close>.\<close>

definition visited :: session where
  "visited = (fresh_session (configOverrides quiet))
      \<lparr>pages := [\<lparr>url = ''https://example.test'', isClosed = False, document = []\<rparr>]\<rparr>"

text \<open>The fresh session after \<^verbatim>\<open>navigateTo("https://example.test/list")\<close>.\<close>

definition listed :: session where
  "listed = (fresh_session (configOverrides quiet))
      \<lparr>pages := [\<lparr>url = ''https://example.test/list'', isClosed = False, document = list_page\<rparr>]\<rparr>"

text \<open>What \<^verbatim>\<open>selector("li")\<close> returns on that session, for each backend.\<close>

definition li_pp :: PuppeteerSelector where
  "li_pp = \<lparr>locator = Locator 0 ''li'', el_config = configOverrides quiet, elementHandle = Handle 0,
            el_page = 0, selectorString = ''li''\<rparr>"

definition li_pw :: PlaywrightSelector where
  "li_pw = \<lparr>pw_locator = PageLocator 0 ''li'', pw_config = configOverrides quiet\<rparr>"

text \<open>What \<^verbatim>\<open>selector("button")\<close> returns on a fresh lenient Puppeteer session (a blank page).\<close>

definition button_on_blank :: PuppeteerSelector where
  "button_on_blank = \<lparr>locator = Locator 0 ''button'', el_config = configOverrides lenient,
      elementHandle = Null, el_page = 0, selectorString = ''button''\<rparr>"

section \<open>Waiting for a dialog: waitForEvent and the alert operations\<close>

text \<open>
  Which of the two promises of a wait settles first is decided outside the code. It is a
  parameter here: for an event name and a timer length in milliseconds, \<open>Some text\<close> when
  a dialog with that text fires before the timer elapses, and \<open>None\<close> when the timer
  elapses first.
\<close>

type_synonym race = "string \<Rightarrow> int \<Rightarrow> string option"

text \<open>
  \<^verbatim>\<open>seconds = seconds || 30\<close>, then \<^verbatim>\<open>seconds * 1000\<close>: the timer PuppeteerBrowser's
  \<^verbatim>\<open>waitForEvent\<close> hands to \<^verbatim>\<open>page.waitForTimeout\<close>. An absent argument and 0 are falsy.
\<close>

definition waitForEvent_ms :: "int option \<Rightarrow> int" where
  "waitForEvent_ms seconds =
     (case seconds of None \<Rightarrow> 30 | Some n \<Rightarrow> if n = 0 then 30 else n) * 1000"

text \<open>
  What the race resolves to: the listener calls \<^verbatim>\<open>resolve(true)\<close>, and
  \<^verbatim>\<open>page.waitForTimeout\<close> resolves to \<^verbatim>\<open>undefined\<close>.
\<close>

datatype race_value = JsTrue | JsUndefined

definition pp_waitForEvent ::
  "string \<Rightarrow> int option \<Rightarrow> race \<Rightarrow> 'm session_scheme \<Rightarrow> (error + race_value) \<times> 'm session_scheme" where
  "pp_waitForEvent eventName seconds race s =
     on_page (page s)
       (\<lambda>p w. if \<not> alive w p then (Inl (DriverError ''Target closed''), w)
              else case race eventName (waitForEvent_ms seconds) of
                     Some fired \<Rightarrow> (Inr JsTrue, w)
                   | None \<Rightarrow> (Inr JsUndefined, w)) s"

text \<open>
  \<^verbatim>\<open>(alert as any).accept()\<close> and its siblings, on what the race resolved to: \<^verbatim>\<open>true\<close> has
  no such method, and \<^verbatim>\<open>undefined\<close> has no members.
\<close>

definition call_member :: "race_value \<Rightarrow> string \<Rightarrow> 's \<Rightarrow> (error + 'a) \<times> 's" where
  "call_member alert member s =
     (case alert of
        JsTrue \<Rightarrow> (Inl (TypeError (''alert.'' @ member @ '' is not a function'')), s)
      | JsUndefined \<Rightarrow> (Inl (TypeError ''Cannot read properties of undefined''), s))"

definition pp_alert_accept :: "actionOptions option \<Rightarrow> race \<Rightarrow> 'm session_scheme \<Rightarrow> (error + unit option) \<times> 'm session_scheme" where
  "pp_alert_accept options race s =
     safeRun (mergeOptions ''Accepting alert'' (actionOptions s) options)
       (andThen (pp_waitForEvent ''dialog'' None race) (\<lambda>alert. call_member alert ''accept'')) s"

definition pp_alert_dismiss :: "actionOptions option \<Rightarrow> race \<Rightarrow> 'm session_scheme \<Rightarrow> (error + unit option) \<times> 'm session_scheme" where
  "pp_alert_dismiss options race s =
     safeRun (mergeOptions ''Dismissing alert'' (actionOptions s) options)
       (andThen (pp_waitForEvent ''dialog'' None race) (\<lambda>alert. call_member alert ''dismiss'')) s"

definition pp_alert_getText :: "actionOptions option \<Rightarrow> race \<Rightarrow> 'm session_scheme \<Rightarrow> (error + string option) \<times> 'm session_scheme" where
  "pp_alert_getText options race s =
     safeRun (mergeOptions ''Getting alert text'' (actionOptions s) options)
       (andThen (pp_waitForEvent ''dialog'' None race) (\<lambda>alert. call_member alert ''message'')) s"

definition pp_alert_sendKeys :: "string \<Rightarrow> actionOptions option \<Rightarrow> race \<Rightarrow> 'm session_scheme \<Rightarrow> (error + unit option) \<times> 'm session_scheme" where
  "pp_alert_sendKeys keys options race s =
     safeRun (mergeOptions ''Sending keys to alert'' (actionOptions s) options)
       (andThen (pp_waitForEvent ''dialog'' None race) (\<lambda>alert. call_member alert ''accept'')) s"

text \<open>
  PlaywrightBrowser awaits the engine's \<^verbatim>\<open>page.waitForEvent("dialog")\<close> and passes no
  time-out: the engine waits its default of 30000 ms, resolves to the dialog, and throws
  when the time runs out. A dialog is its message here; accepting or dismissing it succeeds.
\<close>

datatype dialog = Dialog string

definition page_waitForEvent :: "nat \<Rightarrow> string \<Rightarrow> race \<Rightarrow> 'm driver_scheme \<Rightarrow> (error + dialog) \<times> 'm driver_scheme" where
  "page_waitForEvent p eventName race w =
     (if \<not> alive w p then (Inl (DriverError ''Target closed''), w)
      else case race eventName 30000 of
             Some fired \<Rightarrow> (Inr (Dialog fired), w)
           | None \<Rightarrow> (Inl (DriverError ''Timeout 30000ms exceeded while waiting for event''), w))"

fun dialog_message :: "dialog \<Rightarrow> string" where
  "dialog_message (Dialog text) = text"

definition pw_alert_accept :: "actionOptions option \<Rightarrow> race \<Rightarrow> 'm session_scheme \<Rightarrow> (error + unit option) \<times> 'm session_scheme" where
  "pw_alert_accept options race s =
     safeRun (mergeOptions ''Accepting alert'' (actionOptions s) options)
       (andThen (\<lambda>s. on_page (page s) (\<lambda>p. page_waitForEvent p ''dialog'' race) s)
          (\<lambda>alert s1. (Inr (), s1))) s"

definition pw_alert_dismiss :: "actionOptions option \<Rightarrow> race \<Rightarrow> 'm session_scheme \<Rightarrow> (error + unit option) \<times> 'm session_scheme" where
  "pw_alert_dismiss options race s =
     safeRun (mergeOptions ''Dismissing alert'' (actionOptions s) options)
       (andThen (\<lambda>s. on_page (page s) (\<lambda>p. page_waitForEvent p ''dialog'' race) s)
          (\<lambda>alert s1. (Inr (), s1))) s"

definition pw_alert_getText :: "actionOptions option \<Rightarrow> race \<Rightarrow> 'm session_scheme \<Rightarrow> (error + string option) \<times> 'm session_scheme" where
  "pw_alert_getText options race s =
     safeRun (mergeOptions ''Getting alert text'' (actionOptions s) options)
       (andThen (\<lambda>s. on_page (page s) (\<lambda>p. page_waitForEvent p ''dialog'' race) s)
          (\<lambda>alert s1. (Inr (dialog_message alert), s1))) s"

definition pw_alert_sendKeys :: "string \<Rightarrow> actionOptions option \<Rightarrow> race \<Rightarrow> 'm session_scheme \<Rightarrow> (error + unit option) \<times> 'm session_scheme" where
  "pw_alert_sendKeys keys options race s =
     safeRun (mergeOptions ''Sending keys to alert'' (actionOptions s) options)
       (andThen (\<lambda>s. on_page (page s) (\<lambda>p. page_waitForEvent p ''dialog'' race) s)
          (\<lambda>alert s1. (Inr (), s1))) s"

text \<open>Two environments: no dialog ever fires; a dialog fires after 2 seconds.\<close>

definition no_dialog :: race where
  "no_dialog eventName ms = None"

definition dialog_after_2s :: race where
  "dialog_after_2s eventName ms = (if eventName = ''dialog'' \<and> 2000 < ms then Some ''Leave page?'' else None)"

section \<open>Properties of the action policy and of the configuration merge\<close>

lemma safeRun_logged:
  "safeRun options callBack s =
     (case callBack (logged options s) of
        (Inr results, s2) \<Rightarrow> (Inr (Some results), s2)
      | (Inl e, s2) \<Rightarrow>
          if truthy (throwOnFail' options) then (Inl e, s2)
          else (Inr None, s2\<lparr>console := console s2 @ [LogError e]\<rparr>))"
  by (simp add: safeRun_def logged_def Let_def)

text \<open>
  Claim C2. Whatever the options and the operation: when the operation succeeds, safeRun
  resolves to its result unchanged (and leaves the operation's final state untouched); when
  the operation fails, safeRun re-throws that same failure if the merged throwOnFail is
  true, and otherwise logs the failure and resolves to undefined without raising. Hence a
  failing operation (such as one against a selector that matches nothing) raises exactly
  when throwOnFail is true.
\<close>

theorem safeRun_policy:
  fixes options :: "'x safeRunOptions_scheme" and callBack :: "('m, 'a) js"
  shows "(callBack (logged options s) = (Inr v, t) \<longrightarrow>
            safeRun options callBack s = (Inr (Some v), t))
       \<and> (callBack (logged options s) = (Inl e, t) \<and> truthy (throwOnFail' options) \<longrightarrow>
            safeRun options callBack s = (Inl e, t))
       \<and> (callBack (logged options s) = (Inl e, t) \<and> \<not> truthy (throwOnFail' options) \<longrightarrow>
            safeRun options callBack s = (Inr None, t\<lparr>console := console t @ [LogError e]\<rparr>))
       \<and> (callBack (logged options s) = (Inl e, t) \<longrightarrow>
            ((\<exists>e' s'. safeRun options callBack s = (Inl e', s')) \<longleftrightarrow>
             truthy (throwOnFail' options)))"
  by (simp add: safeRun_logged)

theorem safeRun_policy_witness:
  "safeRun \<lparr>timeout = Absent, log = Value True, throwOnFail' = Value True, message = ''Counting elements''\<rparr>
      (\<lambda>s. (Inr (7::nat), s)) \<lparr>console = []\<rparr>
     = (Inr (Some 7), \<lparr>console = [LogMessage ''Counting elements'']\<rparr>)
   \<and> safeRun \<lparr>timeout = Absent, log = Value False, throwOnFail' = Value True, message = ''Clicking on element''\<rparr>
      (\<lambda>s. (Inl (DriverError ''no element matches #missing'') :: error + unit, s)) \<lparr>console = []\<rparr>
     = (Inl (DriverError ''no element matches #missing''), \<lparr>console = []\<rparr>)
   \<and> safeRun \<lparr>timeout = Absent, log = Value False, throwOnFail' = Value False, message = ''Clicking on element''\<rparr>
      (\<lambda>s. (Inl (DriverError ''no element matches #missing'') :: error + unit, s)) \<lparr>console = []\<rparr>
     = (Inr None, \<lparr>console = [LogError (DriverError ''no element matches #missing'')]\<rparr>)"
  using
    safeRun_policy [where options = "\<lparr>timeout = Absent, log = Value True, throwOnFail' = Value True, message = ''Counting elements''\<rparr>"
      and callBack = "\<lambda>s. (Inr (7::nat), s)" and s = "\<lparr>console = []\<rparr>" and v = 7
      and t = "\<lparr>console = [LogMessage ''Counting elements'']\<rparr>"]
    safeRun_policy [where options = "\<lparr>timeout = Absent, log = Value False, throwOnFail' = Value True, message = ''Clicking on element''\<rparr>"
      and callBack = "\<lambda>s. (Inl (DriverError ''no element matches #missing'') :: error + unit, s)"
      and s = "\<lparr>console = []\<rparr>" and e = "DriverError ''no element matches #missing''"
      and t = "\<lparr>console = []\<rparr>"]
    safeRun_policy [where options = "\<lparr>timeout = Absent, log = Value False, throwOnFail' = Value False, message = ''Clicking on element''\<rparr>"
      and callBack = "\<lambda>s. (Inl (DriverError ''no element matches #missing'') :: error + unit, s)"
      and s = "\<lparr>console = []\<rparr>" and e = "DriverError ''no element matches #missing''"
      and t = "\<lparr>console = []\<rparr>"]
  by (simp add: logged_def)

lemma spreadField_cases:
  "spreadField a b = (if b = Absent then a else b)"
  by (cases b) simp_all

lemma readField_cases:
  "readField f = (if f = Absent then Undefined else f)"
  by (cases f) simp_all

lemma mergeOptions_None [simp]:
  "timeout (mergeOptions m a None) = timeout a"
  "log (mergeOptions m a None) = log a"
  "throwOnFail' (mergeOptions m a None) = throwOnFail' a"
  by (simp_all add: mergeOptions_def)

lemma mergeOptions_Some [simp]:
  "timeout (mergeOptions m a (Some opts)) = spreadField (timeout a) (timeout opts)"
  "log (mergeOptions m a (Some opts)) = spreadField (log a) (log opts)"
  "throwOnFail' (mergeOptions m a (Some opts)) = spreadField (throwOnFail' a) (throwOnFail' opts)"
  by (simp_all add: mergeOptions_def)

lemma mergeOptions_message [simp]:
  "message (mergeOptions m a options) = m"
  by (cases options) (simp_all add: mergeOptions_def)

lemma session_defaults:
  "timeout (getActionOptionsFromConfig (configOverrides cfg)) =
     (if actionTimeout cfg = Absent then Value 5000 else actionTimeout cfg)"
  "log (getActionOptionsFromConfig (configOverrides cfg)) =
     (if logs cfg = Absent then Value True else logs cfg)"
  "throwOnFail' (getActionOptionsFromConfig (configOverrides cfg)) =
     (if throwOnFail cfg = Absent then Value True else throwOnFail cfg)"
  by (simp_all add: getActionOptionsFromConfig_def configOverrides_def defaultConfig_def
        spreadField_cases readField_cases)

text \<open>
  Claim C6. The configuration of one call is a function of the configuration file, the
  message and the call-site options alone (so two calls with the same inputs resolve to the
  same record), computed as library defaults, then the configuration file, then the call
  site: for each of timeout, log and throwOnFail, a key supplied at the call site is the
  resolved value, and a key the call site leaves out falls back to the session's value,
  which is the configuration file's key when it has one and the library default (5000, true,
  true) otherwise.
\<close>

theorem resolveOptions_call_site_wins:
  "(options = Some opts \<and> timeout opts \<noteq> Absent \<longrightarrow>
      timeout (resolveOptions cfg m options) = timeout opts)
 \<and> (options = Some opts \<and> log opts \<noteq> Absent \<longrightarrow>
      log (resolveOptions cfg m options) = log opts)
 \<and> (options = Some opts \<and> throwOnFail' opts \<noteq> Absent \<longrightarrow>
      throwOnFail' (resolveOptions cfg m options) = throwOnFail' opts)
 \<and> (options = None \<or> options = Some opts \<and> timeout opts = Absent \<longrightarrow>
      timeout (resolveOptions cfg m options) =
        (if actionTimeout cfg = Absent then Value 5000 else actionTimeout cfg))
 \<and> (options = None \<or> options = Some opts \<and> log opts = Absent \<longrightarrow>
      log (resolveOptions cfg m options) =
        (if logs cfg = Absent then Value True else logs cfg))
 \<and> (options = None \<or> options = Some opts \<and> throwOnFail' opts = Absent \<longrightarrow>
      throwOnFail' (resolveOptions cfg m options) =
        (if throwOnFail cfg = Absent then Value True else throwOnFail cfg))
 \<and> message (resolveOptions cfg m options) = m"
proof (cases options)
  case None
  then show ?thesis
    by (simp add: resolveOptions_def session_defaults)
next
  case (Some given)
  then show ?thesis
    by (simp add: resolveOptions_def session_defaults spreadField_cases)
qed

theorem resolveOptions_call_site_wins_witness:
  "throwOnFail' (resolveOptions quiet ''Clicking on element''
       (Some \<lparr>timeout = Absent, log = Absent, throwOnFail' = Value False\<rparr>)) = Value False
 \<and> log (resolveOptions quiet ''Clicking on element''
       (Some \<lparr>timeout = Absent, log = Absent, throwOnFail' = Value False\<rparr>)) = Value False
 \<and> timeout (resolveOptions quiet ''Clicking on element''
       (Some \<lparr>timeout = Absent, log = Absent, throwOnFail' = Value False\<rparr>)) = Value 5000
 \<and> timeout (resolveOptions quiet ''Clicking on element''
       (Some \<lparr>timeout = Value 100, log = Value True, throwOnFail' = Absent\<rparr>)) = Value 100
 \<and> log (resolveOptions quiet ''Clicking on element''
       (Some \<lparr>timeout = Value 100, log = Value True, throwOnFail' = Absent\<rparr>)) = Value True
 \<and> throwOnFail' (resolveOptions quiet ''Clicking on element''
       (Some \<lparr>timeout = Value 100, log = Value True, throwOnFail' = Absent\<rparr>)) = Value True
 \<and> throwOnFail' (resolveOptions lenient ''Clicking on element'' None) = Value False"
  using
    resolveOptions_call_site_wins [where cfg = quiet and m = "''Clicking on element''"
      and options = "Some \<lparr>timeout = Absent, log = Absent, throwOnFail' = Value False\<rparr>"
      and opts = "\<lparr>timeout = Absent, log = Absent, throwOnFail' = Value False\<rparr>"]
    resolveOptions_call_site_wins [where cfg = quiet and m = "''Clicking on element''"
      and options = "Some \<lparr>timeout = Value 100, log = Value True, throwOnFail' = Absent\<rparr>"
      and opts = "\<lparr>timeout = Value 100, log = Value True, throwOnFail' = Absent\<rparr>"]
    resolveOptions_call_site_wins [where cfg = lenient and m = "''Clicking on element''"
      and options = None]
  by (simp add: quiet_def lenient_def)

section \<open>Tab management\<close>

lemmas eval_defs =
  safeRun_def andThen_def on_page_def mergeOptions_def getActionOptionsFromConfig_def
  configOverrides_def defaultConfig_def quiet_def lenient_def fresh_session_def
  context_newPage_def page_goto_def page_url_def page_close_def context_close_def
  browser_close_def alive_def js_index_def js_splice1_def Let_def example_web_def

text \<open>The concrete sessions are reachable: \<^verbatim>\<open>init\<close> and \<^verbatim>\<open>navigateTo\<close> produce them.\<close>

lemma init_fresh:
  "PlaywrightBrowser_init quiet example_web example_matches = Inr (fresh_session (configOverrides quiet))"
  "PuppeteerBrowser_init quiet example_web example_matches = Inr (fresh_session (configOverrides quiet))"
  "PlaywrightBrowser_init lenient example_web example_matches = Inr (fresh_session (configOverrides lenient))"
  "PuppeteerBrowser_init lenient example_web example_matches = Inr (fresh_session (configOverrides lenient))"
  by (simp_all add: PlaywrightBrowser_init_def PuppeteerBrowser_init_def configOverrides_def defaultConfig_def
      quiet_def lenient_def context_newPage_def launch_def construct_def fresh_session_def driver.extend_def
      getActionOptionsFromConfig_def)

lemma visited_reached:
  "snd (pp_navigateTo ''https://example.test'' None (fresh_session (configOverrides quiet))) = visited"
  "snd (pw_navigateTo ''https://example.test'' None (fresh_session (configOverrides quiet))) = visited"
  by (simp_all add: visited_def pp_navigateTo_def pw_navigateTo_def eval_defs)

lemma listed_reached:
  "snd (pp_navigateTo ''https://example.test/list'' None (fresh_session (configOverrides quiet))) = listed"
  "snd (pw_navigateTo ''https://example.test/list'' None (fresh_session (configOverrides quiet))) = listed"
  by (simp_all add: listed_def pp_navigateTo_def pw_navigateTo_def eval_defs)

lemma logged_session [simp]:
  fixes s :: "'m session_scheme"
  shows "tabs (logged options s) = tabs s"
    and "currentTab (logged options s) = currentTab s"
    and "page (logged options s) = page s"
    and "actionOptions (logged options s) = actionOptions s"
    and "config (logged options s) = config s"
  by (simp_all add: logged_def)

lemma logged_driver [simp]:
  fixes w :: "'m driver_scheme"
  shows "pages (logged options w) = pages w"
    and "contextClosed (logged options w) = contextClosed w"
    and "browserClosed (logged options w) = browserClosed w"
    and "web (logged options w) = web w"
    and "matches (logged options w) = matches w"
  by (simp_all add: logged_def)

lemma safeRun_session:
  fixes s :: "'m session_scheme"
  shows "tabs (snd (safeRun options body s)) = tabs (snd (body (logged options s)))"
    and "currentTab (snd (safeRun options body s)) = currentTab (snd (body (logged options s)))"
    and "page (snd (safeRun options body s)) = page (snd (body (logged options s)))"
  by (simp_all add: safeRun_logged split: prod.splits sum.splits)

lemma safeRun_driver:
  fixes s :: "'m driver_scheme"
  shows "contextClosed (snd (safeRun options body s)) = contextClosed (snd (body (logged options s)))"
    and "browserClosed (snd (safeRun options body s)) = browserClosed (snd (body (logged options s)))"
    and "pages (snd (safeRun options body s)) = pages (snd (body (logged options s)))"
  by (simp_all add: safeRun_logged split: prod.splits sum.splits)

lemma andThen_preserves:
  assumes "\<And>v t. g (snd (f v t)) = g t" and "g (snd (m s)) = g s"
  shows "g (snd (andThen m f s)) = g s"
proof (cases "m s")
  case (Pair r t)
  with assms(2) have "g t = g s" by simp
  with Pair assms(1) show ?thesis
    by (cases r) (simp_all add: andThen_def)
qed

lemma showInt_5 [simp]: "showInt 5 = ''5''"
  by (simp add: showInt_def showNumber_def showDigits.simps)

subsection \<open>switchToTab\<close>

lemma switchToTab_body_out:
  "i < 0 \<or> i > int (length (tabs s)) - 1 \<Longrightarrow>
     switchToTab_body i s = (Inl (Error (''Tab '' @ showInt i @ '' does not exist'')), s)"
  by (simp add: switchToTab_body_def)

lemma switchToTab_body_in:
  "\<not> (i < 0 \<or> i > int (length (tabs s)) - 1) \<Longrightarrow>
     switchToTab_body i s = (Inr (), s\<lparr>currentTab := i, page := Some (tabs s ! nat i)\<rparr>)"
  by (simp add: switchToTab_body_def js_index_def Let_def)

text \<open>
  Claim C5, as stated, at a concrete input. The claim is that switchToTab(i) fails if and
  only if i is outside 0 .. length(tabs)-1. On a session configured with throwOnFail = false
  and holding one tab, switchToTab(5) of either backend does not fail: safeRun catches the
  error, logs it, and the call resolves to undefined with the tab state untouched.
\<close>

theorem switchToTab_error_swallowed:
  "tabs (fresh_session (configOverrides lenient)) = [0]
 \<and> pw_switchToTab 5 None (fresh_session (configOverrides lenient)) =
     (Inr None, (fresh_session (configOverrides lenient))
                  \<lparr>console := [LogError (Error ''Tab 5 does not exist'')]\<rparr>)
 \<and> pp_switchToTab 5 None (fresh_session (configOverrides lenient)) =
     (Inr None, (fresh_session (configOverrides lenient))
                  \<lparr>console := [LogError (Error ''Tab 5 does not exist'')]\<rparr>)"
  by (simp add: pw_switchToTab_def pp_switchToTab_def switchToTab_body_def eval_defs)

text \<open>
  Claim C5, amended. For every session of either backend, every integer i and all call-site
  options: when i < 0 or i > length(tabs)-1, the guarded body throws
  Error("Tab i does not exist"); the call raises that error if the merged throwOnFail is
  true, and otherwise logs it and resolves to undefined; in both cases tabs, currentTab and
  page are unchanged. When 0 \<le> i \<le> length(tabs)-1 the call succeeds and sets currentTab to i
  and the current page to tabs[i].
\<close>

theorem switchToTab_guard:
  fixes s :: "'m session_scheme"
  assumes "sw = pw_switchToTab \<or> sw = pp_switchToTab"
  shows "((i < 0 \<or> i > int (length (tabs s)) - 1) \<and>
          truthy (throwOnFail' (mergeOptions (''Switching to tab '' @ showInt i) (actionOptions s) options)) \<longrightarrow>
            fst (sw i options s) = Inl (Error (''Tab '' @ showInt i @ '' does not exist''))
          \<and> tabs (snd (sw i options s)) = tabs s
          \<and> currentTab (snd (sw i options s)) = currentTab s
          \<and> page (snd (sw i options s)) = page s)
       \<and> ((i < 0 \<or> i > int (length (tabs s)) - 1) \<and>
          \<not> truthy (throwOnFail' (mergeOptions (''Switching to tab '' @ showInt i) (actionOptions s) options)) \<longrightarrow>
            fst (sw i options s) = Inr None
          \<and> tabs (snd (sw i options s)) = tabs s
          \<and> currentTab (snd (sw i options s)) = currentTab s
          \<and> page (snd (sw i options s)) = page s
          \<and> last (console (snd (sw i options s))) = LogError (Error (''Tab '' @ showInt i @ '' does not exist'')))
       \<and> (0 \<le> i \<and> i \<le> int (length (tabs s)) - 1 \<longrightarrow>
            fst (sw i options s) = Inr (Some ())
          \<and> tabs (snd (sw i options s)) = tabs s
          \<and> currentTab (snd (sw i options s)) = i
          \<and> page (snd (sw i options s)) = Some (tabs s ! nat i))"
proof -
  let ?o = "mergeOptions (''Switching to tab '' @ showInt i) (actionOptions s) options"
  have sw: "sw i options s = safeRun ?o (switchToTab_body i) s"
    using assms by (auto simp: pw_switchToTab_def pp_switchToTab_def)
  show ?thesis
  proof (cases "i < 0 \<or> i > int (length (tabs s)) - 1")
    case True
    then have "switchToTab_body i (logged ?o s)
        = (Inl (Error (''Tab '' @ showInt i @ '' does not exist'')), logged ?o s)"
      using switchToTab_body_out [of i "logged ?o s"] by simp
    with True show ?thesis
      by (auto simp: sw safeRun_logged)
  next
    case False
    then have "switchToTab_body i (logged ?o s)
        = (Inr (), (logged ?o s)\<lparr>currentTab := i, page := Some (tabs s ! nat i)\<rparr>)"
      using switchToTab_body_in [of i "logged ?o s"] by simp
    with False show ?thesis
      by (auto simp: sw safeRun_logged)
  qed
qed

theorem switchToTab_guard_witness:
  "fst (pp_switchToTab 5 None (fresh_session (configOverrides quiet))) = Inl (Error ''Tab 5 does not exist'')
 \<and> fst (pw_switchToTab 5 None (fresh_session (configOverrides lenient))) = Inr None
 \<and> currentTab (snd (pw_switchToTab 5 None (fresh_session (configOverrides lenient)))) = 0
 \<and> fst (pw_switchToTab 0 None (fresh_session (configOverrides quiet))) = Inr (Some ())
 \<and> page (snd (pw_switchToTab 0 None (fresh_session (configOverrides quiet)))) = Some 0"
  using
    switchToTab_guard [where sw = pp_switchToTab and i = 5 and options = None
      and s = "fresh_session (configOverrides quiet)"]
    switchToTab_guard [where sw = pw_switchToTab and i = 5 and options = None
      and s = "fresh_session (configOverrides lenient)"]
    switchToTab_guard [where sw = pw_switchToTab and i = 0 and options = None
      and s = "fresh_session (configOverrides quiet)"]
  by (simp add: eval_defs)

subsection \<open>The current-tab invariant\<close>

lemma tab_inv_console [simp]:
  "tab_inv (s\<lparr>console := c\<rparr>) = tab_inv s"
  "tab_inv (logged options s) = tab_inv s"
  by (simp_all add: tab_inv_def)

lemma page_goto_session [simp]:
  fixes s :: "'m session_scheme"
  shows "tabs (snd (page_goto p u s)) = tabs s"
    and "currentTab (snd (page_goto p u s)) = currentTab s"
    and "page (snd (page_goto p u s)) = page s"
  by (simp_all add: page_goto_def split: option.splits)

lemma driver_flags_console [simp]:
  fixes w :: "'m driver_scheme"
  shows "contextClosed (snd (page_close p w)) = contextClosed w"
    and "browserClosed (snd (page_close p w)) = browserClosed w"
    and "contextClosed (snd (page_goto p u w)) = contextClosed w"
    and "browserClosed (snd (page_goto p u w)) = browserClosed w"
  by (simp_all add: page_close_def page_goto_def split: option.splits)

lemma safeRun_tab_inv:
  "tab_inv (snd (safeRun options body s)) = tab_inv (snd (body (logged options s)))"
  by (simp add: tab_inv_def safeRun_session)

lemma pw_openTab_body_tab_inv:
  assumes "tab_inv s \<or> tabs s = []"
  shows "tabs (snd (pw_openTab_body u s)) \<noteq> [] \<longrightarrow> tab_inv (snd (pw_openTab_body u s))"
  using assms
  by (auto simp: pw_openTab_body_def andThen_def context_newPage_def on_page_def tab_inv_def Let_def)

lemma pw_closeTab_body_tab_inv:
  "tabs (snd (pw_closeTab_body s)) \<noteq> [] \<longrightarrow> tab_inv s \<or> tabs s = [] \<longrightarrow> tab_inv (snd (pw_closeTab_body s))"
  by (cases "page s")
     (auto simp add: pw_closeTab_body_def andThen_def context_close_def
        browser_close_def on_page_def page_close_def tab_inv_def Let_def)

lemma switchToTab_body_tab_inv:
  assumes "tab_inv s \<or> tabs s = []"
  shows "tabs (snd (switchToTab_body i s)) \<noteq> [] \<longrightarrow> tab_inv (snd (switchToTab_body i s))"
  using assms by (auto simp: switchToTab_body_def tab_inv_def Let_def)

text \<open>
  The three tab operations of the Playwright session keep the index in range whenever tabs
  remain.
\<close>

lemma playwright_keeps_tab_inv:
  assumes "tab_inv s \<or> tabs s = []"
  shows "tabs (snd (pw_openTab u options s)) \<noteq> [] \<longrightarrow> tab_inv (snd (pw_openTab u options s))"
    and "tabs (snd (pw_closeTab options s)) \<noteq> [] \<longrightarrow> tab_inv (snd (pw_closeTab options s))"
    and "tabs (snd (pw_switchToTab i options s)) \<noteq> [] \<longrightarrow> tab_inv (snd (pw_switchToTab i options s))"
proof -
  let ?o1 = "mergeOptions ''Opening new tab'' (actionOptions s) options"
  let ?o2 = "mergeOptions ''Closing tab'' (actionOptions s) options"
  let ?o3 = "mergeOptions (''Switching to tab '' @ showInt i) (actionOptions s) options"
  have start: "tab_inv (logged o' s) \<or> tabs (logged o' s) = []" for o' :: safeRunOptions
    using assms by simp
  show "tabs (snd (pw_openTab u options s)) \<noteq> [] \<longrightarrow> tab_inv (snd (pw_openTab u options s))"
    using pw_openTab_body_tab_inv [OF start [of ?o1], of u]
    by (simp add: pw_openTab_def safeRun_session safeRun_tab_inv)
  show "tabs (snd (pw_closeTab options s)) \<noteq> [] \<longrightarrow> tab_inv (snd (pw_closeTab options s))"
    using pw_closeTab_body_tab_inv [of "logged ?o2 s"] start [of ?o2]
    by (auto simp: pw_closeTab_def safeRun_session safeRun_tab_inv)
  show "tabs (snd (pw_switchToTab i options s)) \<noteq> [] \<longrightarrow> tab_inv (snd (pw_switchToTab i options s))"
    using switchToTab_body_tab_inv [OF start [of ?o3], of i]
    by (simp add: pw_switchToTab_def safeRun_session safeRun_tab_inv)
qed

text \<open>The Puppeteer session's \<^verbatim>\<open>switchTab\<close> stores any index, with no guard.\<close>

lemma pp_switchTab_unguarded:
  "fst (pp_switchTab i options s) = Inr (Some ())"
  "currentTab (snd (pp_switchTab i options s)) = i"
  "tabs (snd (pp_switchTab i options s)) = tabs s"
  by (simp_all add: pp_switchTab_def safeRun_logged)

text \<open>
  Claim C1 (0 \<le> currentTab < length(tabs) after every tab-management operation while tabs
  remain, and closing the last tab closes the session without indexing the empty sequence),
  evaluated on the session \<^verbatim>\<open>init\<close> returns, which holds one tab and satisfies the invariant.
  Puppeteer's switchTab(5) succeeds and leaves one tab with currentTab = 5, outside the
  range. Playwright's closeTab() on that last tab succeeds, leaves no tab, sets currentTab
  to -1, reads tabs[-1] of the empty sequence for the current page, and leaves the context
  and the browser open.
\<close>

theorem tab_invariant_violated:
  "tab_inv (fresh_session (configOverrides quiet))
 \<and> pp_switchTab 5 None (fresh_session (configOverrides quiet)) =
     (Inr (Some ()), (fresh_session (configOverrides quiet))\<lparr>currentTab := 5\<rparr>)
 \<and> tabs ((fresh_session (configOverrides quiet))\<lparr>currentTab := 5\<rparr>) = [0]
 \<and> \<not> tab_inv ((fresh_session (configOverrides quiet))\<lparr>currentTab := 5\<rparr>)
 \<and> pw_closeTab None (fresh_session (configOverrides quiet)) =
     (Inr (Some ()),
      (fresh_session (configOverrides quiet))
        \<lparr>pages := [\<lparr>url = ''about:blank'', isClosed = True, document = []\<rparr>],
         tabs := [], currentTab := - 1, page := js_index [] (- 1)\<rparr>)
 \<and> \<not> contextClosed (snd (pw_closeTab None (fresh_session (configOverrides quiet))))
 \<and> \<not> browserClosed (snd (pw_closeTab None (fresh_session (configOverrides quiet))))"
  by (simp add: tab_inv_def pp_switchTab_def pw_closeTab_def pw_closeTab_body_def eval_defs)

subsection \<open>closeTab\<close>

text \<open>
  On a session whose current page is the tab at currentTab, Playwright's closeTab closes
  that page, removes it from the sequence and selects the last remaining tab.
\<close>

lemma pw_closeTab_body_effect:
  assumes "tab_inv s" and "page s = Some (tabs s ! nat (currentTab s))"
    and "tabs s ! nat (currentTab s) < length (pages s)"
  shows "fst (pw_closeTab_body s) = Inr ()"
    and "tabs (snd (pw_closeTab_body s)) =
           take (nat (currentTab s)) (tabs s) @ drop (Suc (nat (currentTab s))) (tabs s)"
    and "currentTab (snd (pw_closeTab_body s)) = int (length (tabs s)) - 2"
    and "isClosed (pages (snd (pw_closeTab_body s)) ! (tabs s ! nat (currentTab s)))"
    and "contextClosed (snd (pw_closeTab_body s)) = contextClosed s"
    and "browserClosed (snd (pw_closeTab_body s)) = browserClosed s"
  using assms
  by (auto simp: pw_closeTab_body_def andThen_def on_page_def page_close_def tab_inv_def
        js_splice1_def Let_def min_def)

text \<open>
  Neither \<^verbatim>\<open>closeTab\<close> releases anything: Puppeteer's has no such code, and Playwright's
  test \<^verbatim>\<open>this.tabs.length === 0\<close> runs before the splice, while the closed tab is still
  in the sequence.
\<close>

lemma pp_closeTab_never_releases:
  "contextClosed (snd (pp_closeTab options s)) = contextClosed s"
  "browserClosed (snd (pp_closeTab options s)) = browserClosed s"
  by (cases "js_index (tabs s) (currentTab s)";
      simp add: pp_closeTab_def safeRun_driver pp_closeTab_body_def andThen_def on_page_def Let_def
        page_close_def)+

lemma pw_closeTab_release_unreachable:
  assumes "tabs s \<noteq> []"
  shows "contextClosed (snd (pw_closeTab options s)) = contextClosed s"
    and "browserClosed (snd (pw_closeTab options s)) = browserClosed s"
  using assms
  by (cases "page s";
      simp add: pw_closeTab_def safeRun_driver pw_closeTab_body_def andThen_def on_page_def Let_def
        page_close_def)+

text \<open>
  Claim C3 (closeTab closes and removes the current tab, selects the last one, and releases
  the context and the browser when no tab remains), evaluated on the one-tab session
  \<^verbatim>\<open>init\<close> returns. closeTab() of either backend succeeds and empties the tab sequence, yet
  the context and the browser are still open afterwards; the Playwright session then even
  opens a new tab in that context.
\<close>

theorem closeTab_last_tab_releases_nothing:
  "tabs (fresh_session (configOverrides quiet)) = [0]
 \<and> fst (pw_closeTab None (fresh_session (configOverrides quiet))) = Inr (Some ())
 \<and> tabs (snd (pw_closeTab None (fresh_session (configOverrides quiet)))) = []
 \<and> \<not> contextClosed (snd (pw_closeTab None (fresh_session (configOverrides quiet))))
 \<and> \<not> browserClosed (snd (pw_closeTab None (fresh_session (configOverrides quiet))))
 \<and> fst (pp_closeTab None (fresh_session (configOverrides quiet))) = Inr (Some ())
 \<and> tabs (snd (pp_closeTab None (fresh_session (configOverrides quiet)))) = []
 \<and> \<not> contextClosed (snd (pp_closeTab None (fresh_session (configOverrides quiet))))
 \<and> \<not> browserClosed (snd (pp_closeTab None (fresh_session (configOverrides quiet))))
 \<and> fst (pw_openTab None None (snd (pw_closeTab None (fresh_session (configOverrides quiet))))) = Inr (Some ())"
  by (simp add: pw_closeTab_def pw_closeTab_body_def pp_closeTab_def pp_closeTab_body_def
        pw_openTab_def pw_openTab_body_def eval_defs)

subsection \<open>openTab\<close>

text \<open>Playwright's openTab appends the new page, makes it current and navigates it.\<close>

lemma pw_openTab_body_blank:
  assumes "\<not> contextClosed s" and "\<not> browserClosed s"
  shows "pw_openTab_body None s =
     (Inr (), s\<lparr>pages := pages s @ [\<lparr>url = ''about:blank'', isClosed = False, document = []\<rparr>],
                tabs := tabs s @ [length (pages s)],
                currentTab := int (length (tabs s)),
                page := Some (length (pages s))\<rparr>)"
  using assms
  by (simp add: pw_openTab_body_def andThen_def context_newPage_def Let_def)

lemma pw_openTab_body_url:
  assumes "\<not> contextClosed s" and "\<not> browserClosed s" and "u \<noteq> []" and "web s u = Some d"
  shows "pw_openTab_body (Some u) s =
     (Inr (), s\<lparr>pages := pages s @ [\<lparr>url = u, isClosed = False, document = d\<rparr>],
                tabs := tabs s @ [length (pages s)],
                currentTab := int (length (tabs s)),
                page := Some (length (pages s))\<rparr>)"
  using assms
  by (simp add: pw_openTab_body_def andThen_def context_newPage_def on_page_def page_goto_def
        alive_def Let_def)

text \<open>Puppeteer's openTab never assigns the current page.\<close>

lemma pp_navigateTo_page:
  "page (snd (pp_navigateTo u options s)) = page s"
  by (cases "page s") (simp_all add: pp_navigateTo_def safeRun_session on_page_def)

lemma pp_openTab_page_unchanged:
  "page (snd (pp_openTab u options s)) = page s"
proof -
  have new: "page (snd (context_newPage t)) = page t" for t :: "'a session_scheme"
    by (simp add: context_newPage_def)
  have nav: "page (snd (andThen (pp_navigateTo v None) (\<lambda>_ s4. (Inr (), s4)) t)) = page t"
    for v and t :: "'a session_scheme"
    by (rule andThen_preserves) (simp_all add: pp_navigateTo_page)
  have "page (snd (pp_openTab_body u t)) = page t" for t :: "'a session_scheme"
    unfolding pp_openTab_body_def
    by (rule andThen_preserves) (simp_all add: new nav Let_def)
  then show ?thesis
    by (simp add: pp_openTab_def safeRun_session)
qed

text \<open>
  Claim C4 (openTab makes the new tab current, so that the operations on the current tab
  target it, the new tab is the one navigated to the URL, and the previous tab stays
  reachable as it was), evaluated on the Puppeteer session that has navigated its first tab
  to https://example.test. openTab("https://example.test/2") succeeds with two tabs and
  currentTab = 1, but the current page is still the first tab: it is the first tab that is
  navigated to the second URL, the new tab stays on about:blank, and after switchToTab(0)
  getUrl() returns the second URL, not the first.
\<close>

theorem pp_openTab_keeps_old_page_current:
  "fst (pp_getUrl None visited) = Inr (Some ''https://example.test'')
 \<and> fst (pp_openTab (Some ''https://example.test/2'') None visited) = Inr (Some ())
 \<and> tabs (snd (pp_openTab (Some ''https://example.test/2'') None visited)) = [0, 1]
 \<and> currentTab (snd (pp_openTab (Some ''https://example.test/2'') None visited)) = 1
 \<and> page (snd (pp_openTab (Some ''https://example.test/2'') None visited)) = Some 0
 \<and> map url (pages (snd (pp_openTab (Some ''https://example.test/2'') None visited))) =
      [''https://example.test/2'', ''about:blank'']
 \<and> fst (pp_getUrl None (snd (pp_switchToTab 0 None
        (snd (pp_openTab (Some ''https://example.test/2'') None visited))))) =
      Inr (Some ''https://example.test/2'')"
  by (simp add: visited_def pp_openTab_def pp_openTab_body_def pp_navigateTo_def pp_getUrl_def
        pp_switchToTab_def switchToTab_body_def eval_defs)

section \<open>Elements\<close>

lemmas element_defs =
  querySelectorAll_def page_S_def page_SS_def page_eval_def await_handle_def locator_click_def
  example_matches_def list_page_def listed_def li_pp_def li_pw_def pp_child_def pw_nth_def
  promise_member_def locator_count_def locator_innerText_def

lemma li_selected:
  "pp_selector ''li'' listed = Inr li_pp"
  "pw_selector ''li'' listed = Inr li_pw"
  by (simp_all add: pp_selector_def pw_selector_def element_defs eval_defs)

lemma logged_queries [simp]:
  fixes w :: "'m driver_scheme"
  shows "alive (logged options w) p = alive w p"
    and "querySelectorAll (logged options w) p sel = querySelectorAll w p sel"
  by (simp_all add: alive_def querySelectorAll_def)

subsection \<open>forEach, filter and map\<close>

text \<open>
  For callbacks that compute their answer without failing or changing the state, the loops
  are maps and filters over the matches in index order. Playwright's filter returns the
  children it handed to the callback; Puppeteer's returns the bare handles.
\<close>

lemma pw_map_loop_pure:
  "pw_map_loop el (\<lambda>c i w. (Inr (f c i), w)) indices result w =
     (Inr (result @ map (\<lambda>i. f (pw_nth el (int i)) i) indices), w)"
  by (induction indices arbitrary: result) simp_all

lemma pw_filter_loop_pure:
  "pw_filter_loop el (\<lambda>c i w. (Inr (keep c i), w)) indices result w =
     (Inr (result @ map (\<lambda>i. pw_nth el (int i))
                      (filter (\<lambda>i. keep (pw_nth el (int i)) i) indices)), w)"
  by (induction indices arbitrary: result) (simp_all add: Let_def)

lemma pw_filter_pure:
  assumes "alive w (locator_page (pw_locator el))"
  shows "pw_filter el (\<lambda>c i w. (Inr (keep c i), w)) w =
     (Inr (map (\<lambda>i. pw_nth el (int i))
             (filter (\<lambda>i. keep (pw_nth el (int i)) i)
                [0..<length (resolve w (pw_locator el))])), w)"
  using assms by (simp add: pw_filter_def andThen_def locator_count_def pw_filter_loop_pure)

lemma pw_map_pure:
  assumes "alive w (locator_page (pw_locator el))"
  shows "pw_map el (\<lambda>c i w. (Inr (f c i), w)) w =
     (Inr (map (\<lambda>i. f (pw_nth el (int i)) i) [0..<length (resolve w (pw_locator el))]), w)"
  using assms by (simp add: pw_map_def andThen_def locator_count_def pw_map_loop_pure)

lemma pp_map_loop_pure:
  "pp_map_loop el (\<lambda>c i w. (Inr (f c i), w)) elements i mapped w =
     (Inr (mapped @ map (\<lambda>(e, j). f (pp_child el e w) j) (zip elements [i..<i + length elements])), w)"
  by (induction elements arbitrary: i mapped) (simp_all del: upt_Suc add: upt_conv_Cons)

lemma pp_filter_loop_pure:
  "pp_filter_loop el (\<lambda>c i w. (Inr (keep c i), w)) elements i filtered w =
     (Inr (filtered @ map (\<lambda>(e, j). ElementHandleObject e)
                        (filter (\<lambda>(e, j). keep (pp_child el e w) j)
                           (zip elements [i..<i + length elements]))), w)"
  by (induction elements arbitrary: i filtered) (simp_all del: upt_Suc add: upt_conv_Cons)

lemma pp_filter_never_returns_elements:
  assumes "fst (pp_filter el (\<lambda>c i w. (Inr (keep c i), w)) options w) = Inr (Some vs)"
    and "v \<in> set vs"
  shows "\<not> isElement v"
  using assms
  by (auto simp: pp_filter_def safeRun_logged andThen_def page_SS_def pp_filter_loop_pure
        split: if_splits)

text \<open>
  Claim C7 (forEach, filter and map visit a child Element per current match in index order,
  and filter returns the child Elements the callback accepted), evaluated on the list page
  with two items for the selector "li". Puppeteer's map hands the callback the two children
  in order, with indices 0 and 1; its filter with a callback that accepts everything returns
  the two raw element handles, which are not Elements, where Playwright's filter returns
  the two children themselves.
\<close>

theorem pp_filter_returns_raw_handles:
  "pp_filter li_pp (\<lambda>child i w. (Inr True, w)) None listed =
     (Inr (Some [ElementHandleObject 0, ElementHandleObject 1]), listed)
 \<and> \<not> isElement (ElementHandleObject 0) \<and> \<not> isElement (ElementHandleObject 1)
 \<and> pp_map li_pp (\<lambda>child i w. (Inr (PuppeteerSelectorObject child, i), w)) None listed =
     (Inr (Some [(PuppeteerSelectorObject (pp_child li_pp 0 listed), 0),
                 (PuppeteerSelectorObject (pp_child li_pp 1 listed), 1)]), listed)
 \<and> pw_filter li_pw (\<lambda>child i w. (Inr True, w)) listed =
     (Inr [pw_nth li_pw 0, pw_nth li_pw 1], listed)"
  by (simp add: pp_filter_def pp_map_def pw_filter_def element_defs eval_defs upt_rec)

subsection \<open>nth\<close>

text \<open>
  Playwright's nth is a recipe for the i-th match: in range it resolves to that node and a
  read returns its text; beyond the matches it resolves to nothing, so only the read fails.
\<close>

lemma pw_nth_resolves:
  assumes "0 \<le> i" and "i < int (length (resolve w (pw_locator el)))"
  shows "resolve w (pw_locator (pw_nth el i)) = [resolve w (pw_locator el) ! nat i]"
  using assms by (simp add: pw_nth_def Let_def)

lemma pw_nth_beyond_resolves_nothing:
  assumes "int (length (resolve w (pw_locator el))) \<le> i"
  shows "resolve w (pw_locator (pw_nth el i)) = []"
  using assms by (simp add: pw_nth_def Let_def)

lemma pw_nth_getText:
  assumes "alive w (locator_page (pw_locator el))"
    and "0 \<le> i" and "i < int (length (resolve w (pw_locator el)))"
  shows "fst (pw_getText (pw_nth el i) options w) =
           Inr (Some (innerText (resolve w (pw_locator el) ! nat i)))"
proof -
  let ?o = "mergeOptions ''Getting text from element''
              (getActionOptionsFromConfig (pw_config (pw_nth el i))) options"
  have same: "resolve (logged ?o w) l = resolve w l" for l
    by (induction l) (simp_all add: Let_def)
  have page: "locator_page (pw_locator (pw_nth el i)) = locator_page (pw_locator el)"
    by (simp add: pw_nth_def)
  have "locator_innerText (pw_locator (pw_nth el i)) (logged ?o w) =
          (Inr (innerText (resolve w (pw_locator el) ! nat i)), logged ?o w)"
    using assms pw_nth_resolves [OF assms(2,3)]
    by (simp add: locator_innerText_def same page)
  then show ?thesis
    by (simp add: pw_getText_def safeRun_logged)
qed

text \<open>Puppeteer's nth holds no handle, whatever the index and the page.\<close>

lemma pp_nth_handle_undefined:
  "elementHandle (pp_nth el i w) = Undef"
  by (simp add: pp_nth_def promise_member_def)

lemma pp_nth_getText_reads_nothing:
  "fst (pp_getText (pp_nth el i w) options w') \<noteq> Inr (Some txt)"
  by (simp add: pp_getText_def safeRun_logged await_handle_def pp_nth_handle_undefined)

text \<open>
  Claim C8 (nth(i) is scoped to the i-th current match, so that for an in-range i the
  operations on the returned Element act on that match), evaluated on the list page, where
  "li" matches two items and index 1 is in range. The Element Puppeteer's nth(1) returns
  holds the handle undefined: getText() throws a TypeError instead of reading the second
  item, click() throws a TypeError because its locator is a promise, and getHTML() returns
  the markup of the first item. Playwright's nth(1) reads the second item.
\<close>

theorem pp_nth_never_reaches_a_node:
  "fst (pp_count li_pp None listed) = Inr (Some 2)
 \<and> elementHandle (pp_nth li_pp 1 listed) = Undef
 \<and> pp_getText (pp_nth li_pp 1 listed) None listed =
     (Inl (TypeError ''Cannot read properties of undefined''), listed)
 \<and> pp_click (pp_nth li_pp 1 listed) None listed =
     (Inl (TypeError ''this.locator.click is not a function''), listed)
 \<and> pp_getHTML (pp_nth li_pp 1 listed) None listed = (Inr (Some ''<b>first</b>''), listed)
 \<and> pw_getText (pw_nth li_pw 1) None listed = (Inr (Some ''second''), listed)"
  by (simp add: pp_count_def pp_nth_def pp_getText_def pp_click_def pp_getHTML_def pw_getText_def
        element_defs eval_defs)

subsection \<open>PuppeteerSelector.isEnabled\<close>

text \<open>
  Claim C10, as stated, at a concrete input. The claim is that isEnabled fails when the page
  contains no button element. On a blank page, for a session configured with
  throwOnFail = false, isEnabled() does not fail: the engine's error is logged and the call
  resolves to undefined.
\<close>

theorem pp_isEnabled_missing_button_swallowed:
  "pp_selector ''button'' (fresh_session (configOverrides lenient)) = Inr button_on_blank
 \<and> querySelectorAll (fresh_session (configOverrides lenient)) 0 ''button'' = []
 \<and> pp_isEnabled button_on_blank None (fresh_session (configOverrides lenient)) =
     (Inr None, (fresh_session (configOverrides lenient))
        \<lparr>console := [LogError (DriverError ''failed to find element matching selector button'')]\<rparr>)"
  by (simp add: pp_selector_def pp_isEnabled_def button_on_blank_def element_defs eval_defs)


text \<open>
  Claim C10, amended. For every PuppeteerSelector, isEnabled depends on the element's page
  and configuration only, not on its selector, handle or locator: it evaluates the disabled
  property of the first node of that page matching "button". On a live page with such a
  node it resolves to that node's disabled value (true exactly when the button is disabled).
  On a live page without one the evaluation fails, and the call raises the engine's error
  if the merged throwOnFail is true and otherwise logs it and resolves to undefined.
\<close>

theorem pp_isEnabled_reads_first_button:
  fixes w :: "'m driver_scheme"
  shows
  "(el_page el' = el_page el \<and> el_config el' = el_config el \<longrightarrow>
      pp_isEnabled el' options w = pp_isEnabled el options w)
 \<and> (alive w (el_page el) \<and> querySelectorAll w (el_page el) ''button'' = b # bs \<longrightarrow>
      fst (pp_isEnabled el options w) = Inr (Some (disabled b)))
 \<and> (alive w (el_page el) \<and> querySelectorAll w (el_page el) ''button'' = [] \<and>
     truthy (throwOnFail' (mergeOptions ''Checking if element is enabled''
               (getActionOptionsFromConfig (el_config el)) options)) \<longrightarrow>
      fst (pp_isEnabled el options w) =
        Inl (DriverError ''failed to find element matching selector button''))
 \<and> (alive w (el_page el) \<and> querySelectorAll w (el_page el) ''button'' = [] \<and>
     \<not> truthy (throwOnFail' (mergeOptions ''Checking if element is enabled''
               (getActionOptionsFromConfig (el_config el)) options)) \<longrightarrow>
      fst (pp_isEnabled el options w) = Inr None
    \<and> last (console (snd (pp_isEnabled el options w))) =
        LogError (DriverError ''failed to find element matching selector button''))"
  by (simp add: pp_isEnabled_def safeRun_logged page_eval_def)


theorem pp_isEnabled_reads_first_button_witness:
  "fst (pp_isEnabled li_pp None listed) = Inr (Some True)
 \<and> pp_isEnabled (pp_nth li_pp 1 listed) None listed = pp_isEnabled li_pp None listed
 \<and> fst (pp_isEnabled (button_on_blank\<lparr>el_config := configOverrides quiet\<rparr>) None
          (fresh_session (configOverrides quiet))) =
      Inl (DriverError ''failed to find element matching selector button'')
 \<and> fst (pp_isEnabled button_on_blank None (fresh_session (configOverrides lenient))) = Inr None"
proof -
  have live: "alive listed (el_page li_pp)"
    by (simp add: alive_def listed_def li_pp_def fresh_session_def)
  have button: "querySelectorAll listed (el_page li_pp) ''button'' =
      \<lparr>nid = 2, tagName = ''button'', innerText = ''Send'', innerHTML = ''Send'', disabled = True\<rparr> # []"
    by (simp add: querySelectorAll_def listed_def li_pp_def fresh_session_def list_page_def
          example_matches_def)
  have same: "el_page (pp_nth li_pp 1 listed) = el_page li_pp
      \<and> el_config (pp_nth li_pp 1 listed) = el_config li_pp"
    by (simp add: pp_nth_def)
  have live_q: "alive (fresh_session (configOverrides quiet))
      (el_page (button_on_blank\<lparr>el_config := configOverrides quiet\<rparr>))"
    by (simp add: alive_def fresh_session_def button_on_blank_def)
  have none_q: "querySelectorAll (fresh_session (configOverrides quiet))
      (el_page (button_on_blank\<lparr>el_config := configOverrides quiet\<rparr>)) ''button'' = []"
    by (simp add: querySelectorAll_def fresh_session_def button_on_blank_def)
  have throw_q: "truthy (throwOnFail' (mergeOptions ''Checking if element is enabled''
      (getActionOptionsFromConfig (el_config (button_on_blank\<lparr>el_config := configOverrides quiet\<rparr>))) None))"
    by (simp add: session_defaults quiet_def)
  have live_l: "alive (fresh_session (configOverrides lenient)) (el_page button_on_blank)"
    by (simp add: alive_def fresh_session_def button_on_blank_def)
  have none_l: "querySelectorAll (fresh_session (configOverrides lenient))
      (el_page button_on_blank) ''button'' = []"
    by (simp add: querySelectorAll_def fresh_session_def button_on_blank_def)
  have throw_l: "\<not> truthy (throwOnFail' (mergeOptions ''Checking if element is enabled''
      (getActionOptionsFromConfig (el_config button_on_blank)) None))"
    by (simp add: session_defaults lenient_def button_on_blank_def)
  note at_list = pp_isEnabled_reads_first_button [where el = li_pp and el' = "pp_nth li_pp 1 listed"
      and options = None and w = listed]
  note at_blank_q = pp_isEnabled_reads_first_button
      [where el = "button_on_blank\<lparr>el_config := configOverrides quiet\<rparr>"
       and options = None and w = "fresh_session (configOverrides quiet)"]
  note at_blank_l = pp_isEnabled_reads_first_button [where el = button_on_blank
      and options = None and w = "fresh_session (configOverrides lenient)"]
  have one: "fst (pp_isEnabled li_pp None listed) = Inr (Some True)"
    using at_list [THEN conjunct2, THEN conjunct1, THEN mp, OF conjI, OF live button]
    by simp
  have two: "pp_isEnabled (pp_nth li_pp 1 listed) None listed = pp_isEnabled li_pp None listed"
    using at_list [THEN conjunct1, THEN mp, OF same] .
  have three: "fst (pp_isEnabled (button_on_blank\<lparr>el_config := configOverrides quiet\<rparr>) None
          (fresh_session (configOverrides quiet))) =
      Inl (DriverError ''failed to find element matching selector button'')"
    using at_blank_q [THEN conjunct2, THEN conjunct2, THEN conjunct1, THEN mp,
        OF conjI, OF live_q conjI, OF none_q throw_q] .
  have four: "fst (pp_isEnabled button_on_blank None (fresh_session (configOverrides lenient))) = Inr None"
    using at_blank_l [THEN conjunct2, THEN conjunct2, THEN conjunct2, THEN mp,
        OF conjI, OF live_l conjI, OF none_l throw_l, THEN conjunct1] .
  show ?thesis
    using one two three four by (intro conjI)
qed

section \<open>Alerts\<close>

lemmas alert_defs =
  pp_waitForEvent_def waitForEvent_ms_def call_member_def page_waitForEvent_def
  no_dialog_def dialog_after_2s_def

text \<open>
  PuppeteerBrowser's wait is bounded by 30 seconds unless the caller gives another bound,
  and on a live page it resolves whoever wins the race, without raising.
\<close>

lemma waitForEvent_default_bound:
  "waitForEvent_ms None = 30000" "waitForEvent_ms (Some 0) = 30000"
  "n \<noteq> 0 \<Longrightarrow> waitForEvent_ms (Some n) = n * 1000"
  by (simp_all add: waitForEvent_ms_def)

lemma pp_waitForEvent_resolves:
  assumes "page s = Some p" and "alive s p"
  shows "pp_waitForEvent eventName seconds race s =
     (Inr (if race eventName (waitForEvent_ms seconds) = None then JsUndefined else JsTrue), s)"
  using assms by (simp add: pp_waitForEvent_def on_page_def split: option.splits)

text \<open>
  What the alert operations of PuppeteerBrowser do with the resolved value throws in every
  case, so none of them ever succeeds, with or without a dialog.
\<close>

lemma pp_alert_body_always_throws:
  "\<exists>e t. andThen (pp_waitForEvent eventName seconds race) (\<lambda>alert. call_member alert member) s
        = (Inl e, t :: 'm session_scheme)"
  by (cases "page s")
     (auto simp: andThen_def pp_waitForEvent_def on_page_def call_member_def
        split: option.splits race_value.splits)

lemma pp_alert_never_succeeds:
  "fst (pp_alert_accept options race s) \<noteq> Inr (Some v)"
  "fst (pp_alert_dismiss options race s) \<noteq> Inr (Some v)"
  "fst (pp_alert_getText options race s) \<noteq> Inr (Some txt)"
  "fst (pp_alert_sendKeys keys options race s) \<noteq> Inr (Some v)"
proof -
  have "fst (safeRun opts (andThen (pp_waitForEvent eventName seconds race)
               (\<lambda>alert. call_member alert member)) s) \<noteq> Inr (Some x)"
    for opts :: safeRunOptions and eventName seconds member and x :: 'b
  proof -
    obtain e t where "andThen (pp_waitForEvent eventName seconds race)
        (\<lambda>alert. call_member alert member) (logged opts s) = (Inl e :: error + 'b, t)"
      using pp_alert_body_always_throws [of eventName seconds race member "logged opts s"]
      by blast
    then show ?thesis by (simp add: safeRun_logged)
  qed
  then show "fst (pp_alert_accept options race s) \<noteq> Inr (Some v)"
    "fst (pp_alert_dismiss options race s) \<noteq> Inr (Some v)"
    "fst (pp_alert_getText options race s) \<noteq> Inr (Some txt)"
    "fst (pp_alert_sendKeys keys options race s) \<noteq> Inr (Some v)"
    by (simp_all add: pp_alert_accept_def pp_alert_dismiss_def pp_alert_getText_def
          pp_alert_sendKeys_def)
qed

text \<open>
  PlaywrightBrowser's accept on a live page: it succeeds when the dialog fires within the
  engine's 30000 ms, and otherwise the engine's time-out error is the operation's error.
\<close>

lemma pw_alert_accept_outcome:
  assumes "page s = Some p" and "alive s p"
  shows "fst (pw_alert_accept options race s) =
     (case race ''dialog'' 30000 of
        Some fired \<Rightarrow> Inr (Some ())
      | None \<Rightarrow>
          if truthy (throwOnFail' (mergeOptions ''Accepting alert'' (actionOptions s) options))
          then Inl (DriverError ''Timeout 30000ms exceeded while waiting for event'')
          else Inr None)"
  using assms
  by (simp add: pw_alert_accept_def safeRun_logged andThen_def on_page_def page_waitForEvent_def
        split: option.splits)

text \<open>
  Claim C9 (every alert operation waits for the next dialog with a bounded wait of 30
  seconds by default, and when no dialog fires in time the wait ends in a timed-out outcome
  rather than an error), evaluated on the session \<^verbatim>\<open>init\<close> returns, with the default
  throwOnFail = true. When no dialog fires, PuppeteerBrowser's wait is armed with 30000 ms
  and resolves to undefined, but each of accept, dismiss, getText and sendKeys then calls a
  method on that undefined and raises a TypeError; when the dialog fires after 2 seconds the
  wait resolves to true and accept raises a TypeError as well. When no dialog fires,
  PlaywrightBrowser's accept raises the engine's time-out error; with the dialog its getText
  returns the message.
\<close>

theorem alert_times_out_with_error:
  "waitForEvent_ms None = 30000
 \<and> pp_waitForEvent ''dialog'' None no_dialog (fresh_session (configOverrides quiet)) =
     (Inr JsUndefined, fresh_session (configOverrides quiet))
 \<and> pp_alert_accept None no_dialog (fresh_session (configOverrides quiet)) =
     (Inl (TypeError ''Cannot read properties of undefined''), fresh_session (configOverrides quiet))
 \<and> pp_alert_dismiss None no_dialog (fresh_session (configOverrides quiet)) =
     (Inl (TypeError ''Cannot read properties of undefined''), fresh_session (configOverrides quiet))
 \<and> pp_alert_getText None no_dialog (fresh_session (configOverrides quiet)) =
     (Inl (TypeError ''Cannot read properties of undefined''), fresh_session (configOverrides quiet))
 \<and> pp_alert_sendKeys ''yes'' None no_dialog (fresh_session (configOverrides quiet)) =
     (Inl (TypeError ''Cannot read properties of undefined''), fresh_session (configOverrides quiet))
 \<and> pp_alert_accept None dialog_after_2s (fresh_session (configOverrides quiet)) =
     (Inl (TypeError ''alert.accept is not a function''), fresh_session (configOverrides quiet))
 \<and> pw_alert_accept None no_dialog (fresh_session (configOverrides quiet)) =
     (Inl (DriverError ''Timeout 30000ms exceeded while waiting for event''),
      fresh_session (configOverrides quiet))
 \<and> pw_alert_getText None dialog_after_2s (fresh_session (configOverrides quiet)) =
     (Inr (Some ''Leave page?''), fresh_session (configOverrides quiet))"
  by (simp add: pp_alert_accept_def pp_alert_dismiss_def pp_alert_getText_def pp_alert_sendKeys_def
        pw_alert_accept_def pw_alert_getText_def alert_defs eval_defs)

end
